theory Spec2Isabelle
  imports Main "HOL-Library.Char_ord" "HOL-Library.AList"
begin

section \<open>ValidationService (services/validation_service.js)\<close>

text \<open>
  A JavaScript string is modelled as a \<^typ>\<open>string\<close>, one \<^typ>\<open>char\<close> per code unit.
  The regular expressions of the validators are single character classes, tested
  unanchored: \<^verbatim>\<open>/[a-z]/.test(value)\<close> holds when some character of the value lies in the
  class, \<^verbatim>\<open>/[^...]/.test(value)\<close> when some character lies outside it. Every class of
  the source only names ASCII characters and ASCII ranges, so a code unit beyond them
  behaves like any other character outside the classes.
\<close>

datatype class_item = Single char | Rng char char

fun in_item :: "class_item \<Rightarrow> char \<Rightarrow> bool" where
  "in_item (Single a) c = (c = a)"
| "in_item (Rng lo hi) c = (lo \<le> c \<and> c \<le> hi)"

definition in_class :: "class_item list \<Rightarrow> char \<Rightarrow> bool" where
  "in_class items c = (\<exists>i \<in> set items. in_item i c)"

datatype regex = CharClass "class_item list" | NegCharClass "class_item list"

fun regex_test :: "regex \<Rightarrow> string \<Rightarrow> bool" where
  "regex_test (CharClass items) s = (\<exists>c \<in> set s. in_class items c)"
| "regex_test (NegCharClass items) s = (\<exists>c \<in> set s. \<not> in_class items c)"

text \<open>The character classes as they are written in the source.\<close>

definition lower_items :: "class_item list" where
  "lower_items = [Rng CHR ''a'' CHR ''z'']"

definition upper_items :: "class_item list" where
  "upper_items = [Rng CHR ''A'' CHR ''Z'']"

definition digit_items :: "class_item list" where
  "digit_items = [Rng CHR ''0'' CHR ''9'']"

text \<open>\<^verbatim>\<open>[!@#$%^&*()_+\-=[\]{};:,.?]\<close>\<close>

definition special_items :: "class_item list" where
  "special_items =
     [Single CHR ''!'', Single CHR ''@'', Single CHR ''#'', Single CHR ''$'',
      Single CHR ''%'', Single CHR ''^'', Single CHR ''&'', Single CHR ''*'',
      Single CHR ''('', Single CHR '')'', Single CHR ''_'', Single CHR ''+'',
      Single CHR ''-'', Single CHR ''='', Single CHR ''['', Single CHR '']'',
      Single CHR ''{'', Single CHR ''}'', Single CHR '';'', Single CHR '':'',
      Single CHR '','', Single CHR ''.'', Single CHR ''?'']"

text \<open>\<^verbatim>\<open>[^a-zA-Z0-9 !@#$%^&*()_+\-=[\]{};:,.?]\<close>\<close>

definition allowed_items :: "class_item list" where
  "allowed_items =
     [Rng CHR ''a'' CHR ''z'', Rng CHR ''A'' CHR ''Z'', Rng CHR ''0'' CHR ''9'',
      Single CHR '' ''] @ special_items"

text \<open>Each validator returns the object \<^verbatim>\<open>{valid, message}\<close>.\<close>

record verdict =
  valid :: bool
  vmessage :: string

definition containsLowercase :: "string \<Rightarrow> verdict" where
  "containsLowercase val =
     \<lparr>valid = regex_test (CharClass lower_items) val,
      vmessage = ''Password must contain at least one lowercase letter''\<rparr>"

definition containsUppercase :: "string \<Rightarrow> verdict" where
  "containsUppercase val =
     \<lparr>valid = regex_test (CharClass upper_items) val,
      vmessage = ''Password must contain at least one uppercase letter''\<rparr>"

definition containsNumber :: "string \<Rightarrow> verdict" where
  "containsNumber val =
     \<lparr>valid = regex_test (CharClass digit_items) val,
      vmessage = ''Password must contain at least one number''\<rparr>"

definition onlyAllowedChars :: "string \<Rightarrow> verdict" where
  "onlyAllowedChars val =
     \<lparr>valid = (\<not> regex_test (NegCharClass allowed_items) val),
      vmessage = ''Password can only contain the following characters: '' @ [CHR 0x0A] @
        ''a-z, A-Z, 0-9, spaces, and these special characters: '' @ [CHR 0x0A] @
        ''!@#$%^&*()_+-=[]{};:,.?''\<rparr>"

definition containsSpecialChar :: "string \<Rightarrow> verdict" where
  "containsSpecialChar val =
     \<lparr>valid = regex_test (CharClass special_items) val,
      vmessage = ''Password must contain at least one special character: '' @ [CHR 0x0A] @
        ''(!@#$%^&*()_+-=[]{};:,.?)''\<rparr>"

definition atLeastEightCharacters :: "string \<Rightarrow> verdict" where
  "atLeastEightCharacters val =
     \<lparr>valid = (length val \<ge> 8),
      vmessage = ''Password must have at least eight characters''\<rparr>"

definition atMostTwentyCharacters :: "string \<Rightarrow> verdict" where
  "atMostTwentyCharacters val =
     \<lparr>valid = (length val \<le> 20),
      vmessage = ''Password must have at most 20 characters''\<rparr>"

definition atLeastFiveCharactersOperator :: "string \<Rightarrow> verdict" where
  "atLeastFiveCharactersOperator val =
     \<lparr>valid = (length val \<ge> 5), vmessage = ''Make it grow a little.''\<rparr>"

definition atMostTwentyCharactersOperator :: "string \<Rightarrow> verdict" where
  "atMostTwentyCharactersOperator val =
     \<lparr>valid = (length val \<le> 20), vmessage = ''Easy... Take it easy.''\<rparr>"

text \<open>
  The loop shared by \<^verbatim>\<open>validatePassword\<close> and \<^verbatim>\<open>validateOperator\<close>: the object
  \<^verbatim>\<open>errors\<close> is an association list from keys to message lists; a failing validator
  appends its message under key \<open>0\<close> (\<^verbatim>\<open>errors[0] = errors[0] || []; errors[0].push(..)\<close>).
\<close>

fun run_validators ::
  "(string \<Rightarrow> verdict) list \<Rightarrow> string \<Rightarrow> (nat \<times> string list) list \<Rightarrow> (nat \<times> string list) list"
where
  "run_validators [] val errors = errors"
| "run_validators (validator # rest) val errors =
     (let result = validator val in
      if \<not> valid result
      then run_validators rest val
             (AList.update 0
                ((case map_of errors 0 of None \<Rightarrow> [] | Some ms \<Rightarrow> ms) @ [vmessage result])
                errors)
      else run_validators rest val errors)"

text \<open>\<^verbatim>\<open>Object.keys(errors).length === 0\<close>\<close>

definition no_keys :: "(nat \<times> string list) list \<Rightarrow> bool" where
  "no_keys errors = (length (map fst errors) = 0)"

definition validatePassword :: "string \<Rightarrow> bool" where
  "validatePassword password =
     no_keys (run_validators
       [containsLowercase, containsUppercase, containsNumber, containsSpecialChar,
        onlyAllowedChars, atLeastEightCharacters, atMostTwentyCharacters] password [])"

definition validateOperator :: "string \<Rightarrow> bool" where
  "validateOperator operator =
     no_keys (run_validators
       [atLeastFiveCharactersOperator, atMostTwentyCharactersOperator] operator [])"

subsection \<open>The password rules as the specification words them\<close>

definition lowercase_letter :: "char \<Rightarrow> bool" where
  "lowercase_letter c = (CHR ''a'' \<le> c \<and> c \<le> CHR ''z'')"

definition uppercase_letter :: "char \<Rightarrow> bool" where
  "uppercase_letter c = (CHR ''A'' \<le> c \<and> c \<le> CHR ''Z'')"

definition digit :: "char \<Rightarrow> bool" where
  "digit c = (CHR ''0'' \<le> c \<and> c \<le> CHR ''9'')"

definition special_character :: "char \<Rightarrow> bool" where
  "special_character c = (c \<in> set ''!@#$%^&*()_+-=[]{};:,.?'')"

definition password_rules :: "string \<Rightarrow> bool" where
  "password_rules p =
     ((\<exists>c \<in> set p. lowercase_letter c) \<and>
      (\<exists>c \<in> set p. uppercase_letter c) \<and>
      (\<exists>c \<in> set p. digit c) \<and>
      (\<exists>c \<in> set p. special_character c) \<and>
      (\<forall>c \<in> set p. lowercase_letter c \<or> uppercase_letter c \<or> digit c \<or> c = CHR '' ''
                       \<or> special_character c) \<and>
      8 \<le> length p \<and> length p \<le> 20)"

section \<open>The tables (models/*.js, init_tables.js)\<close>

text \<open>
  Rows of the tables \<^verbatim>\<open>operators\<close> and \<^verbatim>\<open>tokens\<close>. The column \<^verbatim>\<open>_id\<close> is \<open>op_id\<close> and
  \<open>tk_id\<close>, \<^verbatim>\<open>_fk_operator\<close> is \<open>fk_operator\<close>; the other columns of an operator carry
  the prefix \<open>op_\<close>. The column \<^verbatim>\<open>password\<close> is the only nullable one. A timestamp is a
  number of microseconds.
\<close>

record operator_row =
  op_id :: int
  op_email :: string
  op_password :: "string option"
  op_operator :: string

record token_row =
  tk_id :: int
  fk_operator :: int
  token :: string
  created_at :: int

datatype sqlval = VInt int | VText string | VTime int

fun operator_col :: "string \<Rightarrow> operator_row \<Rightarrow> sqlval option" where
  "operator_col c r =
     (if c = ''_id'' then Some (VInt (op_id r))
      else if c = ''email'' then Some (VText (op_email r))
      else if c = ''password'' then map_option VText (op_password r)
      else if c = ''operator'' then Some (VText (op_operator r))
      else None)"

fun token_col :: "string \<Rightarrow> token_row \<Rightarrow> sqlval option" where
  "token_col c r =
     (if c = ''_id'' then Some (VInt (tk_id r))
      else if c = ''_fk_operator'' then Some (VInt (fk_operator r))
      else if c = ''token'' then Some (VText (token r))
      else if c = ''created_at'' then Some (VTime (created_at r))
      else None)"

text \<open>The model objects: per column its type and the flags \<^verbatim>\<open>primaryKey\<close>, \<^verbatim>\<open>notNull\<close>.\<close>

datatype coltype = Serial | Text | Integer | DateTime | Varchar | Json

record column =
  cname :: string
  ctype :: coltype
  primaryKey :: bool
  notNull :: bool

definition operatorModel :: "column list" where
  "operatorModel =
     [\<lparr>cname = ''_id'', ctype = Serial, primaryKey = True, notNull = True\<rparr>,
      \<lparr>cname = ''email'', ctype = Text, primaryKey = False, notNull = True\<rparr>,
      \<lparr>cname = ''password'', ctype = Text, primaryKey = False, notNull = False\<rparr>,
      \<lparr>cname = ''operator'', ctype = Text, primaryKey = False, notNull = True\<rparr>]"

definition tokenModel :: "column list" where
  "tokenModel =
     [\<lparr>cname = ''_id'', ctype = Serial, primaryKey = True, notNull = True\<rparr>,
      \<lparr>cname = ''_fk_operator'', ctype = Integer, primaryKey = False, notNull = True\<rparr>,
      \<lparr>cname = ''token'', ctype = Text, primaryKey = False, notNull = True\<rparr>,
      \<lparr>cname = ''created_at'', ctype = DateTime, primaryKey = False, notNull = True\<rparr>]"

text \<open>
  What a table enforces. \<^verbatim>\<open>createTable\<close> reads \<^verbatim>\<open>type\<close>, \<^verbatim>\<open>primaryKey\<close> and
  \<^verbatim>\<open>notNull\<close> of each column and calls \<^verbatim>\<open>increments\<close>, \<^verbatim>\<open>primary()\<close> and
  \<^verbatim>\<open>notNullable()\<close>; it never calls \<^verbatim>\<open>unique()\<close>. A \<open>Unique\<close> constraint is part of
  the storage model all the same, so that its absence is a fact about \<open>createTable\<close>.
\<close>

datatype constraint = PrimaryKey string | NotNull string | Unique string

fun createColumn :: "column \<Rightarrow> constraint list" where
  "createColumn col =
     (if ctype col = Serial then [PrimaryKey (cname col)] else []) @
     (if primaryKey col then [PrimaryKey (cname col)] else []) @
     (if notNull col then [NotNull (cname col)] else [])"

definition createTable :: "column list \<Rightarrow> constraint list" where
  "createTable columns = concat (map createColumn columns)"

record db_error =
  code :: string
  err_message :: string

definition unique_violation :: "string \<Rightarrow> db_error" where
  "unique_violation c =
     \<lparr>code = ''23505'', err_message = ''duplicate key value violates unique constraint on '' @ c\<rparr>"

definition not_null_violation :: "string \<Rightarrow> db_error" where
  "not_null_violation c =
     \<lparr>code = ''23502'', err_message = ''null value violates not-null constraint in column '' @ c\<rparr>"

text \<open>The check of one constraint when the row \<open>new\<close> is inserted beside \<open>rows\<close>.\<close>

fun insert_violation ::
  "(string \<Rightarrow> 'r \<Rightarrow> sqlval option) \<Rightarrow> 'r list \<Rightarrow> 'r \<Rightarrow> constraint \<Rightarrow> db_error option" where
  "insert_violation col rows new (NotNull c) =
     (if col c new = None then Some (not_null_violation c) else None)"
| "insert_violation col rows new (Unique c) =
     (if col c new \<noteq> None \<and> (\<exists>r \<in> set rows. col c r = col c new)
      then Some (unique_violation c) else None)"
| "insert_violation col rows new (PrimaryKey c) =
     (if col c new = None then Some (not_null_violation c)
      else if \<exists>r \<in> set rows. col c r = col c new then Some (unique_violation c)
      else None)"

text \<open>The check of one constraint on the table \<open>rows\<close> after an update.\<close>

fun table_violation ::
  "(string \<Rightarrow> 'r \<Rightarrow> sqlval option) \<Rightarrow> 'r list \<Rightarrow> constraint \<Rightarrow> db_error option" where
  "table_violation col rows (NotNull c) =
     (if \<exists>r \<in> set rows. col c r = None then Some (not_null_violation c) else None)"
| "table_violation col rows (Unique c) =
     (if distinct (List.map_filter (col c) rows) then None else Some (unique_violation c))"
| "table_violation col rows (PrimaryKey c) =
     (if \<exists>r \<in> set rows. col c r = None then Some (not_null_violation c)
      else if distinct (List.map_filter (col c) rows) then None
      else Some (unique_violation c))"

fun constraint_column :: "constraint \<Rightarrow> string" where
  "constraint_column (PrimaryKey c) = c"
| "constraint_column (NotNull c) = c"
| "constraint_column (Unique c) = c"

fun first_error :: "db_error option list \<Rightarrow> db_error option" where
  "first_error [] = None"
| "first_error (None # es) = first_error es"
| "first_error (Some e # es) = Some e"

definition check_insert ::
  "(string \<Rightarrow> 'r \<Rightarrow> sqlval option) \<Rightarrow> constraint list \<Rightarrow> 'r list \<Rightarrow> 'r \<Rightarrow> db_error option" where
  "check_insert col cs rows new = first_error (map (insert_violation col rows new) cs)"

text \<open>An update can only break a constraint on a column it sets.\<close>

definition check_update ::
  "(string \<Rightarrow> 'r \<Rightarrow> sqlval option) \<Rightarrow> constraint list \<Rightarrow> string list \<Rightarrow> 'r list \<Rightarrow> db_error option" where
  "check_update col cs set_cols rows =
     first_error (map (table_violation col rows)
       (filter (\<lambda>k. constraint_column k \<in> set set_cols) cs))"

text \<open>
  The database: the rows of the two tables and the last values of their \<^verbatim>\<open>serial\<close>
  sequences, which are taken to stay within the range of the columns. The tables are the
  ones \<^verbatim>\<open>initDataTables\<close> creates from the models.
\<close>

record db =
  operators :: "operator_row list"
  tokens :: "token_row list"
  operators_seq :: int
  tokens_seq :: int

definition operators_constraints :: "constraint list" where
  "operators_constraints = createTable operatorModel"

definition tokens_constraints :: "constraint list" where
  "tokens_constraints = createTable tokenModel"

text \<open>
  A statement returns an error or its result, and the database after it. A statement that
  fails leaves the rows as they were; an insert that fails on a constraint has still taken
  its value from the \<^verbatim>\<open>serial\<close> sequence. Each statement can also fail for a reason
  outside the program (a lost connection, a timeout): the argument \<open>flt\<close> is that failure,
  when there is one, and nothing is changed then.
\<close>

definition insert_operator ::
  "db_error option \<Rightarrow> string \<Rightarrow> string \<Rightarrow> db \<Rightarrow> (db_error + int) \<times> db" where
  "insert_operator flt mail name d =
     (case flt of Some e \<Rightarrow> (Inl e, d) | None \<Rightarrow>
        (let new = \<lparr>op_id = operators_seq d + 1, op_email = mail, op_password = None, op_operator = name\<rparr>
         in case check_insert operator_col operators_constraints (operators d) new of
              Some e \<Rightarrow> (Inl e, d\<lparr>operators_seq := op_id new\<rparr>)
            | None \<Rightarrow> (Inr (op_id new),
                d\<lparr>operators := operators d @ [new], operators_seq := op_id new\<rparr>)))"

definition insert_token ::
  "db_error option \<Rightarrow> int \<Rightarrow> string \<Rightarrow> int \<Rightarrow> db \<Rightarrow> (db_error + unit) \<times> db" where
  "insert_token flt fk tok time d =
     (case flt of Some e \<Rightarrow> (Inl e, d) | None \<Rightarrow>
        (let new = \<lparr>tk_id = tokens_seq d + 1, fk_operator = fk, token = tok, created_at = time\<rparr>
         in case check_insert token_col tokens_constraints (tokens d) new of
              Some e \<Rightarrow> (Inl e, d\<lparr>tokens_seq := tk_id new\<rparr>)
            | None \<Rightarrow> (Inr (), d\<lparr>tokens := tokens d @ [new], tokens_seq := tk_id new\<rparr>)))"

definition update_operators ::
  "db_error option \<Rightarrow> string list \<Rightarrow> (operator_row \<Rightarrow> bool) \<Rightarrow> (operator_row \<Rightarrow> operator_row) \<Rightarrow>
   db \<Rightarrow> (db_error + unit) \<times> db" where
  "update_operators flt set_cols wh upd d =
     (case flt of Some e \<Rightarrow> (Inl e, d) | None \<Rightarrow>
        (let rows = map (\<lambda>r. if wh r then upd r else r) (operators d)
         in case check_update operator_col operators_constraints set_cols rows of
              Some e \<Rightarrow> (Inl e, d)
            | None \<Rightarrow> (Inr (), d\<lparr>operators := rows\<rparr>)))"

definition delete_tokens ::
  "db_error option \<Rightarrow> (token_row \<Rightarrow> bool) \<Rightarrow> db \<Rightarrow> (db_error + unit) \<times> db" where
  "delete_tokens flt wh d =
     (case flt of Some e \<Rightarrow> (Inl e, d) | None \<Rightarrow>
        (Inr (), d\<lparr>tokens := filter (\<lambda>r. \<not> wh r) (tokens d)\<rparr>))"

text \<open>
  A number that a request binds to a parameter compared with an \<^verbatim>\<open>integer\<close> column has
  to lie in the range of that type; the statement fails otherwise. The fields of a row
  hold values of their columns.
\<close>

definition int4 :: "int \<Rightarrow> bool" where
  "int4 v = (- 2147483648 \<le> v \<and> v \<le> 2147483647)"

definition out_of_range :: db_error where
  "out_of_range = \<lparr>code = ''22003'', err_message = ''value out of range for type integer''\<rparr>"

definition select_first :: "db_error option \<Rightarrow> ('r \<Rightarrow> bool) \<Rightarrow> 'r list \<Rightarrow> db_error + 'r option" where
  "select_first flt wh rows = (case flt of Some e \<Rightarrow> Inl e | None \<Rightarrow> Inr (find wh rows))"

subsection \<open>Transactions\<close>

text \<open>
  \<^verbatim>\<open>knex.transaction(function (trx) {...})\<close> with a handler that returns no promise: the
  transaction is settled by the handler's call of \<^verbatim>\<open>trx.commit\<close> or
  \<^verbatim>\<open>trx.rollback\<close>. A query built with \<^verbatim>\<open>.transacting(trx)\<close> runs on the
  transaction's working copy; \<open>commit\<close> installs the working copy, \<open>rollback\<close> drops its
  rows and rejects the transaction's promise with the error it is given. The values that
  the transaction took from the sequences are not given back. A promise inside the
  handler is its settled value together with the transaction.
\<close>

record trx =
  committed :: db
  working :: db

type_synonym 'a promise = "(db_error + 'a) \<times> trx"

definition transacting :: "(db \<Rightarrow> (db_error + 'a) \<times> db) \<Rightarrow> trx \<Rightarrow> 'a promise" where
  "transacting query t = (case query (working t) of (r, w) \<Rightarrow> (r, t\<lparr>working := w\<rparr>))"

definition then_p :: "'a promise \<Rightarrow> ('a \<Rightarrow> trx \<Rightarrow> 'b promise) \<Rightarrow> 'b promise" where
  "then_p p f = (case p of (Inl e, t) \<Rightarrow> (Inl e, t) | (Inr v, t) \<Rightarrow> f v t)"

definition catch_p :: "'a promise \<Rightarrow> (db_error \<Rightarrow> trx \<Rightarrow> 'a promise) \<Rightarrow> 'a promise" where
  "catch_p p f = (case p of (Inl e, t) \<Rightarrow> f e t | (Inr v, t) \<Rightarrow> (Inr v, t))"

definition trx_commit :: "db_error option \<Rightarrow> 'a \<Rightarrow> trx \<Rightarrow> unit promise" where
  "trx_commit flt v t =
     (case flt of Some e \<Rightarrow> (Inl e, t) | None \<Rightarrow> (Inr (), t\<lparr>committed := working t\<rparr>))"

definition keep_sequences :: "db \<Rightarrow> db \<Rightarrow> db" where
  "keep_sequences w c = c\<lparr>operators_seq := operators_seq w, tokens_seq := tokens_seq w\<rparr>"

definition trx_rollback :: "db_error \<Rightarrow> trx \<Rightarrow> unit promise" where
  "trx_rollback e t =
     (Inl e, t\<lparr>committed := keep_sequences (working t) (committed t),
               working := keep_sequences (working t) (committed t)\<rparr>)"

definition knex_transaction :: "(trx \<Rightarrow> unit promise) \<Rightarrow> db \<Rightarrow> (db_error + unit) \<times> db" where
  "knex_transaction handler d =
     (case handler \<lparr>committed = d, working = d\<rparr> of (r, t) \<Rightarrow> (r, committed t))"

section \<open>The world of one request\<close>

text \<open>
  What a request reads from outside the program: the clock of the database (\<open>now\<close>) and
  of the process (\<open>currentTime\<close>), the random token, the password hash library (its
  \<^verbatim>\<open>hash\<close> is taken to return a hash for every string), the e-mail validator (the
  library \<^verbatim>\<open>deep-email-validator\<close> in \<^verbatim>\<open>services/validation_service.js\<close>, a hand-written
  check in the other copy of the file: a predicate on the address either way), the mail
  transport, the signing of the bearer claim and the failures of database statements.
\<close>

datatype stmt =
    GetOperatorByEmail | GetOperatorByName | GetOperatorByToken
  | GetResetTokenRecord | GetInviteTokenRecord | SetResetTokenInsert
  | InviteInsertOperator | InviteInsertToken | InviteCommit
  | UpdateOperator
  | PasswordUpdate | PasswordDelete | PasswordCommit
  | InitUpdate | InitDelete | InitCommit
  | StrategySelect

text \<open>
  \<^verbatim>\<open>bcrypt.compare(password, hash, callback)\<close>: it throws, or calls back with an error,
  or calls back with \<^verbatim>\<open>isMatch\<close>.
\<close>

datatype compare_outcome = CompareThrows string | CompareError string | IsMatch bool

text \<open>
  The response of \<^verbatim>\<open>fetch\<close>: its status and what reading \<^verbatim>\<open>(await response.json()).error\<close>
  gives, the message of the error thrown (a body that is not JSON) or the field
  \<^verbatim>\<open>error\<close> of the parsed body (\<open>None\<close> when the body has no such field).
\<close>

record fetch_response =
  fstatus :: nat
  fjson :: "string + string option"

definition ok :: "fetch_response \<Rightarrow> bool" where
  "ok response = (200 \<le> fstatus response \<and> fstatus response \<le> 299)"

record env =
  now :: int
  currentTime :: int
  randomBytes_hex :: string
  bcrypt_hash :: "string \<Rightarrow> string"
  bcrypt_compare :: "string \<Rightarrow> string option \<Rightarrow> compare_outcome"
  validateEmail :: "string \<Rightarrow> bool"
  fetch :: "string \<Rightarrow> string \<Rightarrow> string \<Rightarrow> string + fetch_response"
  fault :: "stmt \<Rightarrow> db_error option"
  root :: string
  jwt_sign :: "int option \<Rightarrow> string"
  login_error :: "string option"

section \<open>The database service (services/database_service.js)\<close>

text \<open>\<^verbatim>\<open>catch (error) { throw new Error(error.message) }\<close>\<close>

definition rethrow :: "db_error + 'a \<Rightarrow> string + 'a" where
  "rethrow r = (case r of Inl error \<Rightarrow> Inl (err_message error) | Inr v \<Rightarrow> Inr v)"

definition getOperatorByEmail :: "env \<Rightarrow> string \<Rightarrow> db \<Rightarrow> string + operator_row option" where
  "getOperatorByEmail e mail d =
     rethrow (select_first (fault e GetOperatorByEmail) (\<lambda>r. op_email r = mail) (operators d))"

definition getOperatorByName :: "env \<Rightarrow> string \<Rightarrow> db \<Rightarrow> string + operator_row option" where
  "getOperatorByName e name d =
     rethrow (select_first (fault e GetOperatorByName) (\<lambda>r. op_operator r = name) (operators d))"

text \<open>The join of \<^verbatim>\<open>tokens\<close> with \<^verbatim>\<open>operators\<close> on \<^verbatim>\<open>tokens._fk_operator = operators._id\<close>.\<close>

definition join_tokens_operators :: "db \<Rightarrow> (token_row \<times> operator_row) list" where
  "join_tokens_operators d =
     concat (map (\<lambda>t. map (\<lambda>r. (t, r)) (filter (\<lambda>r. fk_operator t = op_id r) (operators d)))
                 (tokens d))"

definition getOperatorByToken ::
  "env \<Rightarrow> string \<Rightarrow> db \<Rightarrow> string + (token_row \<times> operator_row) option" where
  "getOperatorByToken e tok d =
     rethrow (select_first (fault e GetOperatorByToken) (\<lambda>(t, r). token t = tok)
                (join_tokens_operators d))"

text \<open>\<^verbatim>\<open>NOW() - INTERVAL '1 HOUR'\<close>, in microseconds.\<close>

definition one_hour :: int where
  "one_hour = 3600000000"

definition getResetTokenRecord :: "env \<Rightarrow> string \<Rightarrow> db \<Rightarrow> string + token_row option" where
  "getResetTokenRecord e tok d =
     rethrow (select_first (fault e GetResetTokenRecord)
                (\<lambda>r. token r = tok \<and> created_at r > now e - one_hour) (tokens d))"

definition getInviteTokenRecord :: "env \<Rightarrow> string \<Rightarrow> db \<Rightarrow> string + token_row option" where
  "getInviteTokenRecord e tok d =
     rethrow (select_first (fault e GetInviteTokenRecord) (\<lambda>r. token r = tok) (tokens d))"

definition setResetToken :: "env \<Rightarrow> int \<Rightarrow> string \<Rightarrow> db \<Rightarrow> (string + unit) \<times> db" where
  "setResetToken e operator_id tok d =
     (case insert_token (fault e SetResetTokenInsert) operator_id tok (currentTime e) d of
        (Inl error, d') \<Rightarrow>
          (if code error = ''23505''
           then (Inl ''Take it easy! For your safety, only one password reset request per hour.'', d')
           else (Inl (err_message error), d'))
      | (Inr u, d') \<Rightarrow> (Inr (), d'))"

definition setInviteToken :: "env \<Rightarrow> string \<Rightarrow> string \<Rightarrow> db \<Rightarrow> (string + bool \<times> string) \<times> db" where
  "setInviteToken e mail tok d =
     (case knex_transaction (\<lambda>t.
             catch_p
               (then_p
                  (then_p
                     (transacting (insert_operator (fault e InviteInsertOperator) mail ''New Operator'') t)
                     (\<lambda>operator_id.
                        transacting (insert_token (fault e InviteInsertToken) operator_id tok
                                       (currentTime e))))
                  (trx_commit (fault e InviteCommit)))
               trx_rollback) d of
        (Inl error, d') \<Rightarrow> (Inl (err_message error), d')
      | (Inr u, d') \<Rightarrow> (Inr (True, ''Till next time.''), d'))"

definition updateOperator :: "env \<Rightarrow> string \<Rightarrow> int \<Rightarrow> db \<Rightarrow> (string + int) \<times> db" where
  "updateOperator e name operator_id d =
     (if \<not> int4 operator_id then (Inl (err_message out_of_range), d)
      else case update_operators (fault e UpdateOperator) [''operator'']
                  (\<lambda>r. op_id r = operator_id) (\<lambda>r. r\<lparr>op_operator := name\<rparr>) d of
        (Inl error, d') \<Rightarrow> (Inl (err_message error), d')
      | (Inr u, d') \<Rightarrow> (Inr operator_id, d'))"

definition updatePassword :: "env \<Rightarrow> string \<Rightarrow> token_row \<Rightarrow> db \<Rightarrow> (string + unit) \<times> db" where
  "updatePassword e hash token_record d =
     (case knex_transaction (\<lambda>t.
             catch_p
               (then_p
                  (then_p
                     (transacting (update_operators (fault e PasswordUpdate) [''password'']
                                     (\<lambda>r. op_id r = fk_operator token_record)
                                     (\<lambda>r. r\<lparr>op_password := Some hash\<rparr>)) t)
                     (\<lambda>u. transacting (delete_tokens (fault e PasswordDelete)
                                          (\<lambda>r. token r = token token_record))))
                  (trx_commit (fault e PasswordCommit)))
               trx_rollback) d of
        (Inl error, d') \<Rightarrow> (Inl (err_message error), d')
      | (Inr u, d') \<Rightarrow> (Inr (), d'))"

definition initOperator :: "env \<Rightarrow> string \<Rightarrow> string \<Rightarrow> token_row \<Rightarrow> db \<Rightarrow> (string + unit) \<times> db" where
  "initOperator e name hash token_record d =
     (case knex_transaction (\<lambda>t.
             catch_p
               (then_p
                  (then_p
                     (transacting (update_operators (fault e InitUpdate) [''password'', ''operator'']
                                     (\<lambda>r. op_id r = fk_operator token_record)
                                     (\<lambda>r. r\<lparr>op_password := Some hash, op_operator := name\<rparr>)) t)
                     (\<lambda>u. transacting (delete_tokens (fault e InitDelete)
                                          (\<lambda>r. token r = token token_record))))
                  (trx_commit (fault e InitCommit)))
               trx_rollback) d of
        (Inl error, d') \<Rightarrow> (Inl (err_message error), d')
      | (Inr u, d') \<Rightarrow> (Inr (), d'))"

definition generateToken :: "env \<Rightarrow> string" where
  "generateToken e = randomBytes_hex e"

definition generateLink :: "env \<Rightarrow> string \<Rightarrow> string \<Rightarrow> string" where
  "generateLink e route tok = root e @ ''/'' @ route @ ''/'' @ tok"

section \<open>The mail service (services/mail_service.js)\<close>

text \<open>
  \<^verbatim>\<open>sendMail\<close> returns the response of \<^verbatim>\<open>fetch\<close> or rethrows the error's message; \<open>fetch\<close>
  of the world stands for the signing of the request and the call together.
\<close>

definition sendMail :: "env \<Rightarrow> string \<Rightarrow> string \<Rightarrow> string \<Rightarrow> string + fetch_response" where
  "sendMail e mailRecipient mailSubject mailText =
     (case fetch e mailRecipient mailSubject mailText of
        Inl m \<Rightarrow> Inl m
      | Inr response \<Rightarrow> Inr response)"

section \<open>The local strategy (localStrategy.js)\<close>

text \<open>
  The verify callback ends in one call \<^verbatim>\<open>done(error, user, info)\<close>. An exception thrown
  inside the \<^verbatim>\<open>then\<close> handler is caught by the \<^verbatim>\<open>catch\<close> handler of the chain.
\<close>

datatype verified = Done "string option" "operator_row option" string

definition localStrategy :: "env \<Rightarrow> string \<Rightarrow> string \<Rightarrow> db \<Rightarrow> verified" where
  "localStrategy e mail pw d =
     (case select_first (fault e StrategySelect) (\<lambda>r. op_email r = mail) (operators d) of
        Inl error \<Rightarrow> Done (Some (err_message error)) None ''knex error''
      | Inr None \<Rightarrow> Done None None ''Operator not found''
      | Inr (Some operator_record) \<Rightarrow>
          (case bcrypt_compare e pw (op_password operator_record) of
             CompareThrows m \<Rightarrow> Done (Some m) None ''knex error''
           | CompareError m \<Rightarrow> Done (Some m) None ''Bcrypt error''
           | IsMatch isMatch \<Rightarrow>
               (if \<not> isMatch then Done None None ''Password does not match''
                else Done None (Some operator_record) ''Successfully authenticated'')))"

section \<open>The controllers (controllers/auth_controller.js)\<close>

text \<open>
  The JSON envelope of a response with its HTTP status. \<open>message\<close> is \<open>None\<close> when the
  program passes \<^verbatim>\<open>undefined\<close>. The session of a request holds the user that passport
  stored at login and the bearer claim.
\<close>

datatype payload = NoData | EmptyList | UserData operator_row

record response =
  status :: nat
  success :: bool
  message :: "string option"
  data :: payload

record session =
  passport_user :: "operator_row option"
  session_token :: "string option"

definition json :: "nat \<Rightarrow> bool \<Rightarrow> string \<Rightarrow> response" where
  "json st ok_flag m = \<lparr>status = st, success = ok_flag, message = Some m, data = NoData\<rparr>"

text \<open>\<^verbatim>\<open>catch (error) { return res.status(500).json({success: false, message: error.message}) }\<close>\<close>

definition caught :: "string \<Rightarrow> response" where
  "caught m = json 500 False m"

text \<open>
  \<open>login\<close>: passport calls the custom callback with the user only when the strategy
  reported one without an error; \<open>Inl\<close> is \<^verbatim>\<open>next(error)\<close> of a failed \<^verbatim>\<open>req.login\<close>.
  The claim is signed over \<^verbatim>\<open>{userId: authenticatedUser.id}\<close>; the row has the property
  \<^verbatim>\<open>_id\<close> and none named \<^verbatim>\<open>id\<close>, so the payload carries no user id.
\<close>

definition login :: "env \<Rightarrow> string \<Rightarrow> string \<Rightarrow> db \<Rightarrow> session \<Rightarrow> (string + response) \<times> session" where
  "login e mail pw d s =
     (case (case localStrategy e mail pw d of
              Done None (Some user) info \<Rightarrow> Some user
            | Done error user info \<Rightarrow> None) of
        None \<Rightarrow> (Inr (json 400 False ''You shall not pass!''), s)
      | Some authenticatedUser \<Rightarrow>
          (case login_error e of
             Some error \<Rightarrow> (Inl error, s)
           | None \<Rightarrow>
               (Inr \<lparr>status = 200, success = True, message = Some ''Login successful'',
                     data = UserData authenticatedUser\<rparr>,
                s\<lparr>passport_user := Some authenticatedUser,
                   session_token := Some (jwt_sign e None)\<rparr>)))"

text \<open>
  \<open>logout\<close>: \<^verbatim>\<open>req.logout\<close> removes the user from the session, \<^verbatim>\<open>req.session.destroy\<close>
  removes the session \<open>sid\<close> from the store.
\<close>

definition logout :: "(string \<rightharpoonup> session) \<Rightarrow> string \<Rightarrow> response \<times> (string \<rightharpoonup> session)" where
  "logout store sid = (json 200 True ''The operator has been logged out'', store(sid := None))"

definition forgot :: "env \<Rightarrow> string \<Rightarrow> db \<Rightarrow> response \<times> db" where
  "forgot e mailRecipient d =
     (if \<not> validateEmail e mailRecipient then (caught ''That's not a valid email!'', d)
      else case getOperatorByEmail e mailRecipient d of
        Inl m \<Rightarrow> (caught m, d)
      | Inr None \<Rightarrow> (json 200 True ''If that was your email, you will soon get mail.'', d)
      | Inr (Some operator_record) \<Rightarrow>
          (let tok = generateToken e;
               link = generateLink e ''forgot'' tok;
               mailSubject = ''Of course I forget things, it's not like I have an elephant for a brain.'';
               mailText = ''You have requested password reset for your apebase account. If it wasn't you, please let us know. Here is your link:''
                          @ [CHR 0x0A, CHR 0x0A] @ ''    '' @ link
           in case setResetToken e (op_id operator_record) tok d of
                (Inl m, d') \<Rightarrow> (caught m, d')
              | (Inr u, d') \<Rightarrow>
                  (case sendMail e mailRecipient mailSubject mailText of
                     Inl m \<Rightarrow> (caught m, d')
                   | Inr response \<Rightarrow>
                       (case fjson response of
                          Inl m \<Rightarrow> (caught m, d')
                        | Inr responseData_error \<Rightarrow>
                            (if ok response
                             then (json 200 True ''If that was your email, you will soon get mail.'', d')
                             else (\<lparr>status = fstatus response, success = False,
                                    message = responseData_error, data = NoData\<rparr>, d'))))))"

definition password :: "env \<Rightarrow> string \<Rightarrow> string \<Rightarrow> db \<Rightarrow> response \<times> db" where
  "password e tok pw d =
     (if \<not> validatePassword pw then (caught ''That's not a valid password!'', d)
      else case getResetTokenRecord e tok d of
        Inl m \<Rightarrow> (caught m, d)
      | Inr None \<Rightarrow> (caught ''This token isn't valid. Tokens time out after an hour.'', d)
      | Inr (Some tokenRecord) \<Rightarrow>
          (case updatePassword e (bcrypt_hash e pw) tokenRecord d of
             (Inl m, d') \<Rightarrow> (caught m, d')
           | (Inr u, d') \<Rightarrow> (json 200 True ''Password updated successfully'', d')))"

definition operator :: "env \<Rightarrow> string \<Rightarrow> int \<Rightarrow> db \<Rightarrow> response \<times> db" where
  "operator e name user_id d =
     (if \<not> validateOperator name then (caught ''That's not a valid name.'', d)
      else case getOperatorByName e name d of
        Inl m \<Rightarrow> (caught m, d)
      | Inr (Some operatorRecord) \<Rightarrow> (caught ''This name is taken.'', d)
      | Inr None \<Rightarrow>
          (case updateOperator e name user_id d of
             (Inl m, d') \<Rightarrow> (caught m, d')
           | (Inr u, d') \<Rightarrow> (json 200 True (''Stand and be recognized '' @ name), d')))"

definition probe :: "env \<Rightarrow> string \<Rightarrow> db \<Rightarrow> response \<times> db" where
  "probe e name d =
     (case getOperatorByName e name d of
        Inl m \<Rightarrow> (caught m, d)
      | Inr (Some operatorRecord) \<Rightarrow> (caught ''This name is taken.'', d)
      | Inr None \<Rightarrow> (json 200 True (''Name '' @ name @ '' is available''), d))"

definition invite :: "env \<Rightarrow> string \<Rightarrow> db \<Rightarrow> response \<times> db" where
  "invite e mailRecipient d =
     (if \<not> validateEmail e mailRecipient then (caught ''That's not a valid email!'', d)
      else case getOperatorByEmail e mailRecipient d of
        Inl m \<Rightarrow> (caught m, d)
      | Inr (Some operatorRecord) \<Rightarrow> (caught ''This operator has already joined.'', d)
      | Inr None \<Rightarrow>
          (let tok = generateToken e;
               link = generateLink e ''welcome'' tok;
               mailSubject = ''The fate of our digital world rests in your hands.'';
               mailText = ''A friend has invited you to join the apebase. Here is your link:''
                          @ [CHR 0x0A, CHR 0x0A] @ ''    '' @ link
           in case setInviteToken e mailRecipient tok d of
                (Inl m, d') \<Rightarrow> (caught m, d')
              | (Inr u, d') \<Rightarrow>
                  (case sendMail e mailRecipient mailSubject mailText of
                     Inl m \<Rightarrow> (caught m, d')
                   | Inr response \<Rightarrow> (json 200 True ''Your invitation has been extended.'', d'))))"

text \<open>The controller \<^verbatim>\<open>welcome\<close>.\<close>

definition welcome_handler :: "env \<Rightarrow> string \<Rightarrow> db \<Rightarrow> response \<times> db" where
  "welcome_handler e tok d =
     (case getOperatorByToken e tok d of
        Inl m \<Rightarrow> (caught m, d)
      | Inr None \<Rightarrow> (caught ''There is no invitation for this token.'', d)
      | Inr (Some (t, operator_record)) \<Rightarrow> (json 200 True (op_email operator_record), d))"

definition init :: "env \<Rightarrow> string \<Rightarrow> string \<Rightarrow> string \<Rightarrow> db \<Rightarrow> response \<times> db" where
  "init e tok pw name d =
     (if \<not> validateOperator name then (caught ''That's not a valid name.'', d)
      else case getOperatorByName e name d of
        Inl m \<Rightarrow> (caught m, d)
      | Inr (Some existingOperator) \<Rightarrow> (caught ''This name is taken.'', d)
      | Inr None \<Rightarrow>
          (if \<not> validatePassword pw then (caught ''That's not a valid password.'', d)
           else case getInviteTokenRecord e tok d of
             Inl m \<Rightarrow> (caught m, d)
           | Inr None \<Rightarrow> (caught ''This invitation is invalid.'', d)
           | Inr (Some tokenRecord) \<Rightarrow>
               (case initOperator e name (bcrypt_hash e pw) tokenRecord d of
                  (Inl m, d') \<Rightarrow> (caught m, d')
                | (Inr u, d') \<Rightarrow> (json 200 True ''Operator successfully initialized.'', d'))))"

section \<open>The routes (routes/auth_routes.js)\<close>

text \<open>
  The session middleware gives a request the stored session of its cookie, or a fresh
  empty one. \<open>isAuthenticated\<close> lets the request through (\<open>None\<close>, the call of
  \<^verbatim>\<open>next()\<close>) when passport finds a user in the session, and answers 403 otherwise; the
  body of that answer also repeats the status.
\<close>

definition load_session :: "(string \<rightharpoonup> session) \<Rightarrow> string \<Rightarrow> session" where
  "load_session store sid =
     (case store sid of
        None \<Rightarrow> \<lparr>passport_user = None, session_token = None\<rparr>
      | Some s \<Rightarrow> s)"

definition isAuthenticated :: "session \<Rightarrow> response option" where
  "isAuthenticated s =
     (if passport_user s \<noteq> None then None
      else Some \<lparr>status = 403, success = False,
                 message = Some ''Unauthenticated. Please log in first'', data = EmptyList\<rparr>)"

text \<open>\<^verbatim>\<open>router.get('/logout', isAuthenticated, authController.logout)\<close>\<close>

definition get_logout :: "(string \<rightharpoonup> session) \<Rightarrow> string \<Rightarrow> response \<times> (string \<rightharpoonup> session)" where
  "get_logout store sid =
     (case isAuthenticated (load_session store sid) of
        Some denied \<Rightarrow> (denied, store)
      | None \<Rightarrow> logout store sid)"

section \<open>A sample database and world\<close>

text \<open>
  The database after \<^verbatim>\<open>initDataTables\<close> (the genesis operator with \<^verbatim>\<open>_id\<close> 0 and no
  tokens), and a world in which no statement fails, the mail transport answers 200, and a
  stand-in for bcrypt prefixes the password. The answer of the e-mail validator rests on
  lookups outside the program (the mail exchanger of the domain, the mailbox at its
  server): in this world they succeed for the address \<^verbatim>\<open>apebase.operator@gmail.com\<close>, and
  the validator refuses every other address. They serve as concrete inputs.
\<close>

definition genesis :: operator_row where
  "genesis = \<lparr>op_id = 0, op_email = ''genesis@apebase.app'',
               op_password = Some ''$2b$10$111111aA!'', op_operator = ''Genesis''\<rparr>"

definition db0 :: db where
  "db0 = \<lparr>operators = [genesis], tokens = [], operators_seq = 0, tokens_seq = 0\<rparr>"

definition world :: "int \<Rightarrow> string \<Rightarrow> env" where
  "world t hex =
     \<lparr>now = t, currentTime = t, randomBytes_hex = hex,
      bcrypt_hash = (\<lambda>pw. ''$2b$10$'' @ pw),
      bcrypt_compare = (\<lambda>pw h. case h of
          None \<Rightarrow> CompareError ''data and hash arguments required''
        | Some h' \<Rightarrow> IsMatch (h' = ''$2b$10$'' @ pw)),
      validateEmail = (\<lambda>m. m = ''apebase.operator@gmail.com''),
      fetch = (\<lambda>recipient subject text. Inr \<lparr>fstatus = 200, fjson = Inr None\<rparr>),
      fault = (\<lambda>q. None),
      root = ''http://localhost:3000'',
      jwt_sign = (\<lambda>i. ''jwt''),
      login_error = None\<rparr>"

definition connection_lost :: db_error where
  "connection_lost = \<lparr>code = ''08006'', err_message = ''connection failure''\<rparr>"

text \<open>
  The database after an invitation of \<^verbatim>\<open>ann@apebase.app\<close> at time 0, and the database
  after a reset request of the genesis operator at time 0.
\<close>

definition ann :: operator_row where
  "ann = \<lparr>op_id = 1, op_email = ''ann@apebase.app'', op_password = None,
           op_operator = ''New Operator''\<rparr>"

definition db_invited :: db where
  "db_invited =
     \<lparr>operators = [genesis, ann],
      tokens = [\<lparr>tk_id = 1, fk_operator = 1, token = ''5f2a9c'', created_at = 0\<rparr>],
      operators_seq = 1, tokens_seq = 1\<rparr>"

definition db_reset :: db where
  "db_reset =
     \<lparr>operators = [genesis],
      tokens = [\<lparr>tk_id = 1, fk_operator = 0, token = ''77e0b1'', created_at = 0\<rparr>],
      operators_seq = 0, tokens_seq = 1\<rparr>"

text \<open>A session store that holds one session, of the logged-in genesis operator.\<close>

definition store1 :: "string \<rightharpoonup> session" where
  "store1 = [''sid1'' \<mapsto> \<lparr>passport_user = Some genesis, session_token = Some ''jwt''\<rparr>]"







section \<open>Properties of the validation service\<close>

lemma update_not_Nil: "AList.update k v al \<noteq> []"
  by (cases al) auto

lemma run_validators_Nil_iff:
  "run_validators vs val errors = [] \<longleftrightarrow> errors = [] \<and> (\<forall>v \<in> set vs. valid (v val))"
  by (induction vs arbitrary: errors) (auto simp: Let_def update_not_Nil)

lemma in_class_special: "in_class special_items c = special_character c"
  by (auto simp: in_class_def special_items_def special_character_def)

lemma in_class_allowed:
  "in_class allowed_items c =
     (lowercase_letter c \<or> uppercase_letter c \<or> digit c \<or> c = CHR '' '' \<or> special_character c)"
proof -
  have "in_class allowed_items c =
          (in_class [Rng CHR ''a'' CHR ''z'', Rng CHR ''A'' CHR ''Z'', Rng CHR ''0'' CHR ''9'',
                     Single CHR '' ''] c \<or> in_class special_items c)"
    by (auto simp: in_class_def allowed_items_def)
  then show ?thesis
    unfolding in_class_special
    by (auto simp: in_class_def lowercase_letter_def uppercase_letter_def digit_def)
qed

lemma in_class_lower: "in_class lower_items c = lowercase_letter c"
  by (simp add: in_class_def lower_items_def lowercase_letter_def)

lemma in_class_upper: "in_class upper_items c = uppercase_letter c"
  by (simp add: in_class_def upper_items_def uppercase_letter_def)

lemma in_class_digit: "in_class digit_items c = digit c"
  by (simp add: in_class_def digit_items_def digit_def)

lemma validatePassword_rules: "validatePassword p = password_rules p"
  unfolding validatePassword_def no_keys_def length_0_conv map_is_Nil_conv run_validators_Nil_iff
  by (simp add: password_rules_def containsLowercase_def containsUppercase_def
      containsNumber_def containsSpecialChar_def onlyAllowedChars_def
      atLeastEightCharacters_def atMostTwentyCharacters_def in_class_special in_class_allowed
      in_class_lower in_class_upper in_class_digit)

lemma validateOperator_length: "validateOperator name = (5 \<le> length name \<and> length name \<le> 20)"
  unfolding validateOperator_def no_keys_def length_0_conv map_is_Nil_conv run_validators_Nil_iff
  by (auto simp: atLeastFiveCharactersOperator_def atMostTwentyCharactersOperator_def)

lemma password_rules_weak: "\<not> password_rules ''weak''"
  by (simp add: password_rules_def)

lemma password_rules_Abcdef1: "password_rules ''Abcdef1!''"
  by (simp add: password_rules_def lowercase_letter_def uppercase_letter_def digit_def
      special_character_def)

text \<open>
  Claim C8. \<^verbatim>\<open>validatePassword(p)\<close> is true exactly when \<open>p\<close> has a lowercase letter, an
  uppercase letter, a digit and a character of the set \<^verbatim>\<open>!@#$%^&*()_+-=[]{};:,.?\<close>, has
  only letters, digits, spaces and characters of that set, and has between 8 and 20
  characters; \<^verbatim>\<open>validatePassword("weak")\<close> is false and
  \<^verbatim>\<open>validatePassword("Abcdef1!")\<close> is true.
\<close>

theorem validatePassword_iff_rules:
  "validatePassword p =
     ((\<exists>c \<in> set p. lowercase_letter c) \<and>
      (\<exists>c \<in> set p. uppercase_letter c) \<and>
      (\<exists>c \<in> set p. digit c) \<and>
      (\<exists>c \<in> set p. special_character c) \<and>
      (\<forall>c \<in> set p. lowercase_letter c \<or> uppercase_letter c \<or> digit c \<or> c = CHR '' ''
                       \<or> special_character c) \<and>
      8 \<le> length p \<and> length p \<le> 20)
   \<and> \<not> validatePassword ''weak'' \<and> validatePassword ''Abcdef1!''"
  using validatePassword_rules [of p] validatePassword_rules [of "''weak''"]
    validatePassword_rules [of "''Abcdef1!''"] password_rules_weak password_rules_Abcdef1
  unfolding password_rules_def by blast

theorem validatePassword_iff_rules_witness:
  "validatePassword ''Abcdef1!'' \<and> (\<exists>c \<in> set ''Abcdef1!''. special_character c) \<and>
   8 \<le> length ''Abcdef1!'' \<and> length ''Abcdef1!'' \<le> 20"
  using validatePassword_iff_rules [of "''Abcdef1!''"] by blast

section \<open>Properties of the database service\<close>

lemma keep_sequences_rows [simp]:
  "operators (keep_sequences w c) = operators c" "tokens (keep_sequences w c) = tokens c"
  by (simp_all add: keep_sequences_def)

lemma setInviteToken_steps:
  "setInviteToken e mail tok d =
     (case insert_operator (fault e InviteInsertOperator) mail ''New Operator'' d of
        (Inl err, d1) \<Rightarrow> (Inl (err_message err), keep_sequences d1 d)
      | (Inr i, d1) \<Rightarrow>
          (case insert_token (fault e InviteInsertToken) i tok (currentTime e) d1 of
             (Inl err, d2) \<Rightarrow> (Inl (err_message err), keep_sequences d2 d)
           | (Inr u, d2) \<Rightarrow>
               (case fault e InviteCommit of
                  Some err \<Rightarrow> (Inl (err_message err), keep_sequences d2 d)
                | None \<Rightarrow> (Inr (True, ''Till next time.''), d2))))"
  by (simp add: setInviteToken_def knex_transaction_def catch_p_def then_p_def transacting_def
      trx_commit_def trx_rollback_def split: sum.splits option.splits prod.splits)

lemma updatePassword_steps:
  "updatePassword e hash tr d =
     (case update_operators (fault e PasswordUpdate) [''password'']
             (\<lambda>r. op_id r = fk_operator tr) (\<lambda>r. r\<lparr>op_password := Some hash\<rparr>) d of
        (Inl err, d1) \<Rightarrow> (Inl (err_message err), keep_sequences d1 d)
      | (Inr u, d1) \<Rightarrow>
          (case delete_tokens (fault e PasswordDelete) (\<lambda>r. token r = token tr) d1 of
             (Inl err, d2) \<Rightarrow> (Inl (err_message err), keep_sequences d2 d)
           | (Inr u, d2) \<Rightarrow>
               (case fault e PasswordCommit of
                  Some err \<Rightarrow> (Inl (err_message err), keep_sequences d2 d)
                | None \<Rightarrow> (Inr (), d2))))"
  by (simp add: updatePassword_def knex_transaction_def catch_p_def then_p_def transacting_def
      trx_commit_def trx_rollback_def split: sum.splits option.splits prod.splits)

lemma initOperator_steps:
  "initOperator e name hash tr d =
     (case update_operators (fault e InitUpdate) [''password'', ''operator'']
             (\<lambda>r. op_id r = fk_operator tr)
             (\<lambda>r. r\<lparr>op_password := Some hash, op_operator := name\<rparr>) d of
        (Inl err, d1) \<Rightarrow> (Inl (err_message err), keep_sequences d1 d)
      | (Inr u, d1) \<Rightarrow>
          (case delete_tokens (fault e InitDelete) (\<lambda>r. token r = token tr) d1 of
             (Inl err, d2) \<Rightarrow> (Inl (err_message err), keep_sequences d2 d)
           | (Inr u, d2) \<Rightarrow>
               (case fault e InitCommit of
                  Some err \<Rightarrow> (Inl (err_message err), keep_sequences d2 d)
                | None \<Rightarrow> (Inr (), d2))))"
  by (simp add: initOperator_def knex_transaction_def catch_p_def then_p_def transacting_def
      trx_commit_def trx_rollback_def split: sum.splits option.splits prod.splits)

lemma check_update_password [simp]:
  "check_update operator_col operators_constraints [''password''] rows = None"
  by (simp add: check_update_def operators_constraints_def createTable_def operatorModel_def)

lemma check_update_password_operator [simp]:
  "check_update operator_col operators_constraints [''password'', ''operator''] rows = None"
  by (simp add: check_update_def operators_constraints_def createTable_def operatorModel_def)

lemma check_update_operator [simp]:
  "check_update operator_col operators_constraints [''operator''] rows = None"
  by (simp add: check_update_def operators_constraints_def createTable_def operatorModel_def)

lemma check_insert_operator:
  "check_insert operator_col operators_constraints rows new =
     (if \<exists>r \<in> set rows. op_id r = op_id new then Some (unique_violation ''_id'') else None)"
  by (simp add: check_insert_def operators_constraints_def createTable_def operatorModel_def)

lemma check_insert_token:
  "check_insert token_col tokens_constraints rows new =
     (if \<exists>r \<in> set rows. tk_id r = tk_id new then Some (unique_violation ''_id'') else None)"
  by (simp add: check_insert_def tokens_constraints_def createTable_def tokenModel_def)

lemma insert_operator_Inr:
  "insert_operator flt mail name d = (Inr i, d1) \<Longrightarrow>
     flt = None \<and> i = operators_seq d + 1 \<and>
     d1 = d\<lparr>operators := operators d @
              [\<lparr>op_id = operators_seq d + 1, op_email = mail, op_password = None, op_operator = name\<rparr>],
            operators_seq := operators_seq d + 1\<rparr>"
  by (auto simp: insert_operator_def Let_def split: option.splits)

lemma insert_token_Inr:
  "insert_token flt fk tok time d = (Inr u, d1) \<Longrightarrow>
     flt = None \<and>
     d1 = d\<lparr>tokens := tokens d @
              [\<lparr>tk_id = tokens_seq d + 1, fk_operator = fk, token = tok, created_at = time\<rparr>],
            tokens_seq := tokens_seq d + 1\<rparr>"
  by (auto simp: insert_token_def Let_def split: option.splits)

lemma update_operators_Inr:
  "set_cols = [''password''] \<or> set_cols = [''password'', ''operator''] \<or> set_cols = [''operator''] \<Longrightarrow>
   update_operators flt set_cols wh upd d =
     (case flt of Some e \<Rightarrow> (Inl e, d)
      | None \<Rightarrow> (Inr (), d\<lparr>operators := map (\<lambda>r. if wh r then upd r else r) (operators d)\<rparr>))"
  by (auto simp: update_operators_def Let_def split: option.splits)

lemma insert_operator_Inl:
  "insert_operator flt mail name d = (Inl err, d1) \<Longrightarrow>
     operators d1 = operators d \<and> tokens d1 = tokens d"
  by (auto simp: insert_operator_def Let_def split: option.splits)

lemma insert_token_Inl:
  "insert_token flt fk tok time d = (Inl err, d1) \<Longrightarrow>
     operators d1 = operators d \<and> tokens d1 = tokens d"
  by (auto simp: insert_token_def Let_def split: option.splits)

lemma setInviteToken_atomic:
  "case setInviteToken e mail tok d of
     (Inl m, d') \<Rightarrow> operators d' = operators d \<and> tokens d' = tokens d
   | (Inr r, d') \<Rightarrow>
       operators d' = operators d @
         [\<lparr>op_id = operators_seq d + 1, op_email = mail, op_password = None,
           op_operator = ''New Operator''\<rparr>] \<and>
       tokens d' = tokens d @
         [\<lparr>tk_id = tokens_seq d + 1, fk_operator = operators_seq d + 1, token = tok,
           created_at = currentTime e\<rparr>]"
  unfolding setInviteToken_steps
  by (auto split: sum.splits option.splits prod.splits
      dest!: insert_operator_Inr insert_token_Inr insert_operator_Inl insert_token_Inl)

lemma setInviteToken_fault:
  "fault e InviteInsertOperator \<noteq> None \<or> fault e InviteInsertToken \<noteq> None \<or>
   fault e InviteCommit \<noteq> None \<Longrightarrow> isl (fst (setInviteToken e mail tok d))"
  unfolding setInviteToken_steps
  by (auto split: sum.splits option.splits prod.splits
      dest!: insert_operator_Inr insert_token_Inr insert_operator_Inl insert_token_Inl)

lemma updatePassword_atomic:
  "case updatePassword e hash tr d of
     (Inl m, d') \<Rightarrow> operators d' = operators d \<and> tokens d' = tokens d
   | (Inr r, d') \<Rightarrow>
       operators d' = map (\<lambda>r. if op_id r = fk_operator tr then r\<lparr>op_password := Some hash\<rparr> else r)
                          (operators d) \<and>
       tokens d' = filter (\<lambda>r. token r \<noteq> token tr) (tokens d)"
  unfolding updatePassword_steps
  by (auto simp: update_operators_Inr delete_tokens_def
      split: sum.splits option.splits prod.splits)

lemma updatePassword_fault:
  "fault e PasswordUpdate \<noteq> None \<or> fault e PasswordDelete \<noteq> None \<or>
   fault e PasswordCommit \<noteq> None \<Longrightarrow> isl (fst (updatePassword e hash tr d))"
  unfolding updatePassword_steps
  by (auto simp: update_operators_Inr delete_tokens_def
      split: sum.splits option.splits prod.splits)

lemma initOperator_atomic:
  "case initOperator e name hash tr d of
     (Inl m, d') \<Rightarrow> operators d' = operators d \<and> tokens d' = tokens d
   | (Inr r, d') \<Rightarrow>
       operators d' = map (\<lambda>r. if op_id r = fk_operator tr
                                then r\<lparr>op_password := Some hash, op_operator := name\<rparr> else r)
                          (operators d) \<and>
       tokens d' = filter (\<lambda>r. token r \<noteq> token tr) (tokens d)"
  unfolding initOperator_steps
  by (auto simp: update_operators_Inr delete_tokens_def
      split: sum.splits option.splits prod.splits)

lemma initOperator_fault:
  "fault e InitUpdate \<noteq> None \<or> fault e InitDelete \<noteq> None \<or>
   fault e InitCommit \<noteq> None \<Longrightarrow> isl (fst (initOperator e name hash tr d))"
  unfolding initOperator_steps
  by (auto simp: update_operators_Inr delete_tokens_def
      split: sum.splits option.splits prod.splits)

text \<open>
  Claim C1. Each operation with more than one write (\<open>setInviteToken\<close>: operator insert and
  token insert; \<open>updatePassword\<close>: password update and token delete; \<open>initOperator\<close>: name
  and password update and token delete) runs in one transaction: for every execution,
  either it fails and the rows of both tables are as before, or it succeeds and both
  writes are in the tables; the failure of any of its steps (first write, second write,
  commit) makes it fail.
\<close>

theorem multi_write_operations_atomic:
  "(case setInviteToken e mail tok d of
      (Inl m, d') \<Rightarrow> operators d' = operators d \<and> tokens d' = tokens d
    | (Inr r, d') \<Rightarrow>
        operators d' = operators d @
          [\<lparr>op_id = operators_seq d + 1, op_email = mail, op_password = None,
            op_operator = ''New Operator''\<rparr>] \<and>
        tokens d' = tokens d @
          [\<lparr>tk_id = tokens_seq d + 1, fk_operator = operators_seq d + 1, token = tok,
            created_at = currentTime e\<rparr>]) \<and>
   (case updatePassword e hash tr d of
      (Inl m, d') \<Rightarrow> operators d' = operators d \<and> tokens d' = tokens d
    | (Inr r, d') \<Rightarrow>
        operators d' = map (\<lambda>r. if op_id r = fk_operator tr then r\<lparr>op_password := Some hash\<rparr> else r)
                           (operators d) \<and>
        tokens d' = filter (\<lambda>r. token r \<noteq> token tr) (tokens d)) \<and>
   (case initOperator e name hash tr d of
      (Inl m, d') \<Rightarrow> operators d' = operators d \<and> tokens d' = tokens d
    | (Inr r, d') \<Rightarrow>
        operators d' = map (\<lambda>r. if op_id r = fk_operator tr
                                 then r\<lparr>op_password := Some hash, op_operator := name\<rparr> else r)
                           (operators d) \<and>
        tokens d' = filter (\<lambda>r. token r \<noteq> token tr) (tokens d)) \<and>
   (fault e InviteInsertOperator \<noteq> None \<or> fault e InviteInsertToken \<noteq> None \<or>
    fault e InviteCommit \<noteq> None \<longrightarrow> isl (fst (setInviteToken e mail tok d))) \<and>
   (fault e PasswordUpdate \<noteq> None \<or> fault e PasswordDelete \<noteq> None \<or>
    fault e PasswordCommit \<noteq> None \<longrightarrow> isl (fst (updatePassword e hash tr d))) \<and>
   (fault e InitUpdate \<noteq> None \<or> fault e InitDelete \<noteq> None \<or>
    fault e InitCommit \<noteq> None \<longrightarrow> isl (fst (initOperator e name hash tr d)))"
  using setInviteToken_atomic [where e = e and mail = mail and tok = tok and d = d]
    updatePassword_atomic [where e = e and hash = hash and tr = tr and d = d]
    initOperator_atomic [where e = e and name = name and hash = hash and tr = tr and d = d]
    setInviteToken_fault [where e = e and mail = mail and tok = tok and d = d]
    updatePassword_fault [where e = e and hash = hash and tr = tr and d = d]
    initOperator_fault [where e = e and name = name and hash = hash and tr = tr and d = d]
  by blast

text \<open>
  The theorem at a concrete execution: the token insert of an invitation fails after the
  operator insert went through, and no operator row is left behind.
\<close>

theorem multi_write_operations_atomic_witness:
  "fault ((world 0 ''5f2a9c'')\<lparr>fault := (\<lambda>q. if q = InviteInsertToken then Some connection_lost else None)\<rparr>)
     InviteInsertToken \<noteq> None \<and>
   isl (fst (setInviteToken
     ((world 0 ''5f2a9c'')\<lparr>fault := (\<lambda>q. if q = InviteInsertToken then Some connection_lost else None)\<rparr>)
     ''ann@apebase.app'' ''5f2a9c'' db0)) \<and>
   operators (snd (setInviteToken
     ((world 0 ''5f2a9c'')\<lparr>fault := (\<lambda>q. if q = InviteInsertToken then Some connection_lost else None)\<rparr>)
     ''ann@apebase.app'' ''5f2a9c'' db0)) = [genesis]"
proof -
  let ?e = "(world 0 ''5f2a9c'')\<lparr>fault := (\<lambda>q. if q = InviteInsertToken then Some connection_lost else None)\<rparr>"
  let ?r = "setInviteToken ?e ''ann@apebase.app'' ''5f2a9c'' db0"
  note atomic = multi_write_operations_atomic
    [where e = ?e and mail = "''ann@apebase.app''" and tok = "''5f2a9c''" and d = db0
       and hash = "''h''" and name = "''Carol''"
       and tr = "\<lparr>tk_id = 1, fk_operator = 0, token = ''5f2a9c'', created_at = 0\<rparr>"]
  have flt: "fault ?e InviteInsertToken \<noteq> None"
    by simp
  from atomic have
    "fault ?e InviteInsertOperator \<noteq> None \<or> fault ?e InviteInsertToken \<noteq> None \<or>
     fault ?e InviteCommit \<noteq> None \<longrightarrow> isl (fst ?r)"
    by (elim conjE)
  with flt have failed: "isl (fst ?r)"
    by blast
  from atomic have "case ?r of
      (Inl m, d') \<Rightarrow> operators d' = operators db0 \<and> tokens d' = tokens db0
    | (Inr r, d') \<Rightarrow>
        operators d' = operators db0 @
          [\<lparr>op_id = operators_seq db0 + 1, op_email = ''ann@apebase.app'', op_password = None,
            op_operator = ''New Operator''\<rparr>] \<and>
        tokens d' = tokens db0 @
          [\<lparr>tk_id = tokens_seq db0 + 1, fk_operator = operators_seq db0 + 1, token = ''5f2a9c'',
            created_at = currentTime ?e\<rparr>]"
    by (rule conjunct1)
  with failed have "operators (snd ?r) = operators db0"
    by (cases ?r) (auto split: sum.splits)
  with flt failed show ?thesis
    by (simp add: db0_def)
qed

section \<open>Properties of the local strategy and of login\<close>

lemma world_simps:
  "now (world t hex) = t" "currentTime (world t hex) = t" "randomBytes_hex (world t hex) = hex"
  "bcrypt_hash (world t hex) pw = ''$2b$10$'' @ pw"
  "bcrypt_compare (world t hex) pw None = CompareError ''data and hash arguments required''"
  "bcrypt_compare (world t hex) pw (Some h) = IsMatch (h = ''$2b$10$'' @ pw)"
  "validateEmail (world t hex) m = (m = ''apebase.operator@gmail.com'')"
  "fetch (world t hex) recipient subject body = Inr \<lparr>fstatus = 200, fjson = Inr None\<rparr>"
  "fault (world t hex) q = None"
  "root (world t hex) = ''http://localhost:3000''"
  "login_error (world t hex) = None"
  by (simp_all add: world_def)

lemma localStrategy_absent_hash:
  assumes "find (\<lambda>r. op_email r = mail) (operators d) = Some r"
    and "op_password r = None"
    and "bcrypt_compare e pw None \<noteq> IsMatch True"
  shows "\<exists>error info. localStrategy e mail pw d = Done error None info"
  using assms
  by (auto simp: localStrategy_def select_first_def split: option.splits compare_outcome.splits)

lemma login_without_user:
  "localStrategy e mail pw d = Done error None info \<Longrightarrow>
   login e mail pw d s = (Inr (json 400 False ''You shall not pass!''), s)"
  by (simp add: login_def split: option.splits)

text \<open>
  Claim C2. When the operator found for the submitted e-mail has no password hash, the
  verification ends in a call of \<open>done\<close> without a user, whatever password is submitted,
  and \<open>login\<close> answers with the authentication failure (400, the answer of a wrong
  password); nothing is thrown past the strategy. The hash library is a parameter: it is
  only assumed not to report a match against an absent hash.
\<close>

theorem absent_hash_fails_authentication:
  assumes "find (\<lambda>r. op_email r = mail) (operators d) = Some r"
    and "op_password r = None"
    and "bcrypt_compare e pw None \<noteq> IsMatch True"
  shows "(\<exists>error info. localStrategy e mail pw d = Done error None info) \<and>
         login e mail pw d s = (Inr (json 400 False ''You shall not pass!''), s)"
  using localStrategy_absent_hash [OF assms] login_without_user by blast

theorem absent_hash_fails_authentication_witness:
  "find (\<lambda>r. op_email r = ''ann@apebase.app'') (operators db_invited) = Some ann \<and>
   op_password ann = None \<and>
   bcrypt_compare (world 5 ''00'') ''Abcdef1!'' None \<noteq> IsMatch True \<and>
   login (world 5 ''00'') ''ann@apebase.app'' ''Abcdef1!'' db_invited
     \<lparr>passport_user = None, session_token = None\<rparr> =
     (Inr (json 400 False ''You shall not pass!''), \<lparr>passport_user = None, session_token = None\<rparr>)"
proof -
  have 1: "find (\<lambda>r. op_email r = ''ann@apebase.app'') (operators db_invited) = Some ann"
    by (simp add: db_invited_def genesis_def ann_def)
  have 2: "op_password ann = None"
    by (simp add: ann_def)
  have 3: "bcrypt_compare (world 5 ''00'') ''Abcdef1!'' None \<noteq> IsMatch True"
    by (simp add: world_def)
  from absent_hash_fails_authentication [OF 1 2 3] 1 2 3 show ?thesis
    by blast
qed

section \<open>Properties of the controllers\<close>

lemma find_Some_ex: "(\<exists>r. find P xs = Some r) \<longleftrightarrow> (\<exists>r \<in> set xs. P r)"
  by (induction xs) auto

lemma find_None_all: "find P xs = None \<longleftrightarrow> (\<forall>r \<in> set xs. \<not> P r)"
  by (induction xs) auto

lemma updatePassword_no_fault:
  "fault e PasswordUpdate = None \<Longrightarrow> fault e PasswordDelete = None \<Longrightarrow>
   fault e PasswordCommit = None \<Longrightarrow>
   updatePassword e hash tr d =
     (Inr (), d\<lparr>operators := map (\<lambda>r. if op_id r = fk_operator tr then r\<lparr>op_password := Some hash\<rparr> else r)
                                  (operators d),
               tokens := filter (\<lambda>r. token r \<noteq> token tr) (tokens d)\<rparr>)"
  unfolding updatePassword_steps
  by (simp add: update_operators_Inr delete_tokens_def)

lemma getResetTokenRecord_no_fault:
  "fault e GetResetTokenRecord = None \<Longrightarrow>
   getResetTokenRecord e tok d =
     Inr (find (\<lambda>r. token r = tok \<and> created_at r > now e - one_hour) (tokens d))"
  by (simp add: getResetTokenRecord_def select_first_def rethrow_def)

lemma password_fresh:
  assumes "validatePassword pw"
    and "fault e GetResetTokenRecord = None" and "fault e PasswordUpdate = None"
    and "fault e PasswordDelete = None" and "fault e PasswordCommit = None"
    and "find (\<lambda>r. token r = tok \<and> created_at r > now e - one_hour) (tokens d) = Some tr"
  shows "password e tok pw d =
     (json 200 True ''Password updated successfully'',
      d\<lparr>operators := map (\<lambda>r. if op_id r = fk_operator tr
                               then r\<lparr>op_password := Some (bcrypt_hash e pw)\<rparr> else r) (operators d),
        tokens := filter (\<lambda>r. token r \<noteq> token tr) (tokens d)\<rparr>)"
  using assms
  by (simp add: password_def getResetTokenRecord_no_fault updatePassword_no_fault)

lemma password_stale:
  assumes "validatePassword pw"
    and "fault e GetResetTokenRecord = None"
    and "find (\<lambda>r. token r = tok \<and> created_at r > now e - one_hour) (tokens d) = None"
  shows "password e tok pw d =
     (caught ''This token isn't valid. Tokens time out after an hour.'', d)"
  using assms
  by (simp add: password_def getResetTokenRecord_no_fault)

text \<open>
  Claim C3, as the code has it. With a valid password and no failing statement, the
  operation \<open>password\<close> succeeds exactly when some token row with the submitted value is
  younger than one hour, strictly: \<open>created_at > NOW() - 1 hour\<close>. Otherwise, whether
  the token is unknown or an hour old or older, the answer is the same failure and the
  database is unchanged.
\<close>

theorem password_succeeds_iff_younger_than_hour:
  assumes "validatePassword pw"
    and "fault e GetResetTokenRecord = None" and "fault e PasswordUpdate = None"
    and "fault e PasswordDelete = None" and "fault e PasswordCommit = None"
  shows "(success (fst (password e tok pw d)) \<longleftrightarrow>
            (\<exists>r \<in> set (tokens d). token r = tok \<and> now e - created_at r < one_hour)) \<and>
         (\<not> (\<exists>r \<in> set (tokens d). token r = tok \<and> now e - created_at r < one_hour) \<longrightarrow>
            password e tok pw d =
              (caught ''This token isn't valid. Tokens time out after an hour.'', d))"
proof (cases "find (\<lambda>r. token r = tok \<and> created_at r > now e - one_hour) (tokens d)")
  case None
  then have "\<not> (\<exists>r \<in> set (tokens d). token r = tok \<and> now e - created_at r < one_hour)"
    by (auto simp: find_None_all)
  with password_stale [OF assms(1,2) None] show ?thesis
    by (simp add: caught_def json_def)
next
  case (Some tr)
  then have "\<exists>r \<in> set (tokens d). token r = tok \<and> created_at r > now e - one_hour"
    using find_Some_ex [of "\<lambda>r. token r = tok \<and> created_at r > now e - one_hour" "tokens d"]
    by blast
  then have "\<exists>r \<in> set (tokens d). token r = tok \<and> now e - created_at r < one_hour"
    by force
  with password_fresh [OF assms Some] show ?thesis
    by (simp add: json_def)
qed

theorem password_succeeds_iff_younger_than_hour_witness:
  "validatePassword ''Abcdef1!'' \<and>
   success (fst (password (world (one_hour - 1) ''00'') ''77e0b1'' ''Abcdef1!'' db_reset)) \<and>
   (\<exists>r \<in> set (tokens db_reset). token r = ''77e0b1'' \<and>
       now (world (one_hour - 1) ''00'') - created_at r < one_hour)"
proof -
  have v: "validatePassword ''Abcdef1!''"
    by (simp add: validatePassword_rules password_rules_Abcdef1)
  have y: "\<exists>r \<in> set (tokens db_reset). token r = ''77e0b1'' \<and>
       now (world (one_hour - 1) ''00'') - created_at r < one_hour"
    by (simp add: db_reset_def world_simps)
  from password_succeeds_iff_younger_than_hour
    [where e = "world (one_hour - 1) ''00''" and pw = "''Abcdef1!''" and tok = "''77e0b1''"
       and d = db_reset, OF v] y
  have "success (fst (password (world (one_hour - 1) ''00'') ''77e0b1'' ''Abcdef1!'' db_reset))"
    by (simp add: world_simps)
  with v y show ?thesis by blast
qed

text \<open>
  The claim as it is stated fails at the boundary: a token exactly one hour old
  (\<open>now - created_at = 1 hour\<close>, so \<open>now - created_at \<le> 1 hour\<close>) is refused.
\<close>

theorem password_at_one_hour_counterexample:
  "now (world one_hour ''00'') - created_at (hd (tokens db_reset)) \<le> one_hour \<and>
   token (hd (tokens db_reset)) = ''77e0b1'' \<and>
   validatePassword ''Abcdef1!'' \<and>
   password (world one_hour ''00'') ''77e0b1'' ''Abcdef1!'' db_reset =
     (caught ''This token isn't valid. Tokens time out after an hour.'', db_reset)"
proof -
  have v: "validatePassword ''Abcdef1!''"
    by (simp add: validatePassword_rules password_rules_Abcdef1)
  have "find (\<lambda>r. token r = ''77e0b1'' \<and> created_at r > now (world one_hour ''00'') - one_hour)
          (tokens db_reset) = None"
    by (simp add: db_reset_def world_simps)
  from password_stale [OF v _ this] have
    "password (world one_hour ''00'') ''77e0b1'' ''Abcdef1!'' db_reset =
       (caught ''This token isn't valid. Tokens time out after an hour.'', db_reset)"
    by (simp add: world_simps)
  with v show ?thesis
    by (simp add: db_reset_def world_simps)
qed

lemma getOperatorByName_no_fault:
  "fault e GetOperatorByName = None \<Longrightarrow>
   getOperatorByName e name d = Inr (find (\<lambda>r. op_operator r = name) (operators d))"
  by (simp add: getOperatorByName_def select_first_def rethrow_def)

lemma getOperatorByEmail_no_fault:
  "fault e GetOperatorByEmail = None \<Longrightarrow>
   getOperatorByEmail e mail d = Inr (find (\<lambda>r. op_email r = mail) (operators d))"
  by (simp add: getOperatorByEmail_def select_first_def rethrow_def)

lemma getInviteTokenRecord_no_fault:
  "fault e GetInviteTokenRecord = None \<Longrightarrow>
   getInviteTokenRecord e tok d = Inr (find (\<lambda>r. token r = tok) (tokens d))"
  by (simp add: getInviteTokenRecord_def select_first_def rethrow_def)

text \<open>
  Claim C9. \<open>init\<close> checks the display name first (its shape, then that no operator has
  it), then the shape of the password, then the invitation token, and stops at the first
  check that fails: the answer is the error of that check and the database is unchanged,
  whatever the later checks would have found (the password and the token are arbitrary
  in the earlier cases, and so are the failures of the statements not yet reached).
\<close>

theorem init_checks_in_order:
  "(\<not> validateOperator name \<longrightarrow>
      init e tok pw name d = (caught ''That's not a valid name.'', d)) \<and>
   (validateOperator name \<and> getOperatorByName e name d = Inr (Some taken) \<longrightarrow>
      init e tok pw name d = (caught ''This name is taken.'', d)) \<and>
   (validateOperator name \<and> getOperatorByName e name d = Inr None \<and> \<not> validatePassword pw \<longrightarrow>
      init e tok pw name d = (caught ''That's not a valid password.'', d)) \<and>
   (validateOperator name \<and> getOperatorByName e name d = Inr None \<and> validatePassword pw \<and>
    getInviteTokenRecord e tok d = Inr None \<longrightarrow>
      init e tok pw name d = (caught ''This invitation is invalid.'', d))"
  by (simp add: init_def)

text \<open>
  The theorem at concrete inputs, each failing its check and every later one: a short name
  with a weak password and an unknown token; the genesis name with a weak password and an
  unknown token; a free name with a weak password and an unknown token; a free name with
  a good password and an unknown token.
\<close>

theorem init_checks_in_order_witness:
  "\<not> validateOperator ''Bob'' \<and> \<not> validatePassword ''weak'' \<and>
   init (world 0 ''00'') ''nope'' ''weak'' ''Bob'' db0 = (caught ''That's not a valid name.'', db0) \<and>
   validateOperator ''Genesis'' \<and>
   getOperatorByName (world 0 ''00'') ''Genesis'' db0 = Inr (Some genesis) \<and>
   init (world 0 ''00'') ''nope'' ''weak'' ''Genesis'' db0 = (caught ''This name is taken.'', db0) \<and>
   validateOperator ''Carol'' \<and>
   getOperatorByName (world 0 ''00'') ''Carol'' db0 = Inr None \<and>
   init (world 0 ''00'') ''nope'' ''weak'' ''Carol'' db0 = (caught ''That's not a valid password.'', db0) \<and>
   validatePassword ''Abcdef1!'' \<and>
   getInviteTokenRecord (world 0 ''00'') ''nope'' db0 = Inr None \<and>
   init (world 0 ''00'') ''nope'' ''Abcdef1!'' ''Carol'' db0 = (caught ''This invitation is invalid.'', db0)"
proof -
  have n1: "\<not> validateOperator ''Bob''" and n2: "validateOperator ''Genesis''"
    and n3: "validateOperator ''Carol''"
    by (simp_all add: validateOperator_length)
  have p1: "\<not> validatePassword ''weak''" and p2: "validatePassword ''Abcdef1!''"
    by (simp_all add: validatePassword_rules password_rules_weak password_rules_Abcdef1)
  have g1: "getOperatorByName (world 0 ''00'') ''Genesis'' db0 = Inr (Some genesis)"
    and g2: "getOperatorByName (world 0 ''00'') ''Carol'' db0 = Inr None"
    by (simp_all add: getOperatorByName_no_fault world_simps db0_def genesis_def)
  have t1: "getInviteTokenRecord (world 0 ''00'') ''nope'' db0 = Inr None"
    by (simp add: getInviteTokenRecord_no_fault world_simps db0_def)
  note ordered = init_checks_in_order [where e = "world 0 ''00''" and d = db0 and tok = "''nope''"]
  from ordered [where name = "''Bob''" and pw = "''weak''"] n1
  have a: "init (world 0 ''00'') ''nope'' ''weak'' ''Bob'' db0 = (caught ''That's not a valid name.'', db0)"
    by blast
  from ordered [where name = "''Genesis''" and pw = "''weak''" and taken = genesis] n2 g1
  have b: "init (world 0 ''00'') ''nope'' ''weak'' ''Genesis'' db0 = (caught ''This name is taken.'', db0)"
    by blast
  from ordered [where name = "''Carol''" and pw = "''weak''"] n3 g2 p1
  have c: "init (world 0 ''00'') ''nope'' ''weak'' ''Carol'' db0 = (caught ''That's not a valid password.'', db0)"
    by blast
  from ordered [where name = "''Carol''" and pw = "''Abcdef1!''"] n3 g2 p2 t1
  have d: "init (world 0 ''00'') ''nope'' ''Abcdef1!'' ''Carol'' db0 = (caught ''This invitation is invalid.'', db0)"
    by blast
  from n1 n2 n3 p1 p2 g1 g2 t1 a b c d show ?thesis
    by blast
qed



lemma setResetToken_no_fault:
  "fault e SetResetTokenInsert = None \<Longrightarrow> \<forall>r \<in> set (tokens d). tk_id r \<noteq> tokens_seq d + 1 \<Longrightarrow>
   setResetToken e i tok d =
     (Inr (), d\<lparr>tokens := tokens d @
                 [\<lparr>tk_id = tokens_seq d + 1, fk_operator = i, token = tok,
                   created_at = currentTime e\<rparr>],
               tokens_seq := tokens_seq d + 1\<rparr>)"
  by (simp add: setResetToken_def insert_token_def check_insert_token Let_def)

lemma setInviteToken_no_fault:
  "fault e InviteInsertOperator = None \<Longrightarrow> fault e InviteInsertToken = None \<Longrightarrow>
   fault e InviteCommit = None \<Longrightarrow>
   \<forall>r \<in> set (operators d). op_id r \<noteq> operators_seq d + 1 \<Longrightarrow>
   \<forall>r \<in> set (tokens d). tk_id r \<noteq> tokens_seq d + 1 \<Longrightarrow>
   setInviteToken e mail tok d =
     (Inr (True, ''Till next time.''),
      d\<lparr>operators := operators d @
           [\<lparr>op_id = operators_seq d + 1, op_email = mail, op_password = None,
             op_operator = ''New Operator''\<rparr>],
        operators_seq := operators_seq d + 1,
        tokens := tokens d @
           [\<lparr>tk_id = tokens_seq d + 1, fk_operator = operators_seq d + 1, token = tok,
             created_at = currentTime e\<rparr>],
        tokens_seq := tokens_seq d + 1\<rparr>)"
  unfolding setInviteToken_steps
  by (simp add: insert_operator_def insert_token_def check_insert_operator check_insert_token
      Let_def)




section \<open>Properties of the logout route\<close>

text \<open>
  Claim C6, as the code has it. For a session that is logged in, the first
  \<^verbatim>\<open>GET /auth/logout\<close> answers with the success and removes the session from the store;
  the second call in sequence does not reach the handler: the guard \<open>isAuthenticated\<close> of
  the route answers 403. The handler \<open>logout\<close> on its own gives the same success answer
  on every store, also on the one it has already emptied.
\<close>

theorem logout_twice_guarded:
  "(passport_user (load_session store sid) \<noteq> None \<longrightarrow>
      get_logout store sid =
        (json 200 True ''The operator has been logged out'', store(sid := None)) \<and>
      get_logout (snd (get_logout store sid)) sid =
        (\<lparr>status = 403, success = False, message = Some ''Unauthenticated. Please log in first'',
          data = EmptyList\<rparr>, store(sid := None))) \<and>
   fst (logout (snd (logout store sid)) sid) = fst (logout store sid) \<and>
   fst (logout store sid) = json 200 True ''The operator has been logged out''"
  by (simp add: get_logout_def isAuthenticated_def load_session_def logout_def)

theorem logout_twice_guarded_witness:
  "passport_user (load_session store1 ''sid1'') \<noteq> None \<and>
   get_logout store1 ''sid1'' =
     (json 200 True ''The operator has been logged out'', store1(''sid1'' := None)) \<and>
   get_logout (snd (get_logout store1 ''sid1'')) ''sid1'' =
     (\<lparr>status = 403, success = False, message = Some ''Unauthenticated. Please log in first'',
       data = EmptyList\<rparr>, store1(''sid1'' := None))"
proof -
  have "passport_user (load_session store1 ''sid1'') \<noteq> None"
    by (simp add: load_session_def store1_def)
  with logout_twice_guarded [where store = store1 and sid = "''sid1''"] show ?thesis
    by blast
qed

text \<open>
  The claim as it is stated fails: the second of two logouts in sequence is answered with
  403 and \<open>success: false\<close>, not with the success of the first.
\<close>

theorem logout_twice_counterexample:
  "success (fst (get_logout store1 ''sid1'')) \<and>
   status (fst (get_logout store1 ''sid1'')) = 200 \<and>
   \<not> success (fst (get_logout (snd (get_logout store1 ''sid1'')) ''sid1'')) \<and>
   status (fst (get_logout (snd (get_logout store1 ''sid1'')) ''sid1'')) = 403"
  by (simp add: get_logout_def isAuthenticated_def load_session_def logout_def store1_def
      json_def)

section \<open>Properties of the storage constraints\<close>

lemma no_unique_constraint:
  "Unique c \<notin> set operators_constraints" "Unique c \<notin> set tokens_constraints"
  by (simp_all add: operators_constraints_def tokens_constraints_def createTable_def
      operatorModel_def tokenModel_def)

lemma setResetToken_unique_violation:
  "insert_token (fault e SetResetTokenInsert) i tok (currentTime e) d = (Inl error, d') \<Longrightarrow>
   code error = ''23505'' \<Longrightarrow>
   setResetToken e i tok d =
     (Inl ''Take it easy! For your safety, only one password reset request per hour.'', d')"
  by (simp add: setResetToken_def)

lemma updateOperator_no_fault:
  "fault e UpdateOperator = None \<Longrightarrow> int4 i \<Longrightarrow>
   updateOperator e name i d =
     (Inr i, d\<lparr>operators := map (\<lambda>r. if op_id r = i then r\<lparr>op_operator := name\<rparr> else r)
                                (operators d)\<rparr>)"
  by (simp add: updateOperator_def update_operators_Inr)

lemma forgot_token_inserted:
  assumes "validateEmail e mail" and "fault e GetOperatorByEmail = None"
    and "find (\<lambda>r. op_email r = mail) (operators d) = Some r"
    and "fault e SetResetTokenInsert = None"
    and "\<forall>t \<in> set (tokens d). tk_id t \<noteq> tokens_seq d + 1"
    and "\<forall>subject body. fetch e mail subject body = Inr response"
    and "ok response" and "fjson response = Inr reason"
  shows "forgot e mail d =
     (json 200 True ''If that was your email, you will soon get mail.'',
      d\<lparr>tokens := tokens d @
           [\<lparr>tk_id = tokens_seq d + 1, fk_operator = op_id r, token = generateToken e,
             created_at = currentTime e\<rparr>],
        tokens_seq := tokens_seq d + 1\<rparr>)"
  using assms
  by (simp add: forgot_def getOperatorByEmail_no_fault setResetToken_no_fault sendMail_def
      Let_def)

text \<open>
  Claim C4 on the code: on the tables that \<open>createTable\<close> makes, the insert of a second
  reset token for the same operator, one minute after the first, goes through like the
  first; the operator then has two reset tokens, and the error 23505 that
  \<open>setResetToken\<close> turns into the rate-limit message is not raised.
\<close>

theorem second_reset_token_within_the_hour_inserted:
  "setResetToken (world 0 ''77e0b1'') (op_id genesis) ''77e0b1'' db0 = (Inr (), db_reset) \<and>
   setResetToken (world 60000000 ''c40d52'') (op_id genesis) ''c40d52'' db_reset =
     (Inr (),
      db_reset\<lparr>tokens := tokens db_reset @
                  [\<lparr>tk_id = 2, fk_operator = 0, token = ''c40d52'', created_at = 60000000\<rparr>],
               tokens_seq := 2\<rparr>)"
  by (simp add: setResetToken_no_fault world_simps db0_def db_reset_def genesis_def)

lemma invite_email_taken:
  assumes "\<exists>r \<in> set (operators d). op_email r = mail"
  shows "\<not> success (fst (invite e mail d)) \<and> snd (invite e mail d) = d"
proof -
  from assms obtain r where r: "find (\<lambda>r. op_email r = mail) (operators d) = Some r"
    using find_Some_ex [of "\<lambda>r. op_email r = mail" "operators d"] by blast
  show ?thesis
  proof (cases "fault e GetOperatorByEmail")
    case None
    with r show ?thesis
      by (simp add: invite_def getOperatorByEmail_no_fault caught_def json_def)
  next
    case (Some err)
    then show ?thesis
      by (simp add: invite_def getOperatorByEmail_def select_first_def rethrow_def caught_def
          json_def)
  qed
qed

lemma operator_name_taken:
  assumes "\<exists>r \<in> set (operators d). op_operator r = name"
  shows "\<not> success (fst (operator e name i d)) \<and> snd (operator e name i d) = d \<and>
         \<not> success (fst (init e tok pw name d)) \<and> snd (init e tok pw name d) = d"
proof -
  from assms obtain r where r: "find (\<lambda>r. op_operator r = name) (operators d) = Some r"
    using find_Some_ex [of "\<lambda>r. op_operator r = name" "operators d"] by blast
  show ?thesis
  proof (cases "fault e GetOperatorByName")
    case None
    with r show ?thesis
      by (simp add: operator_def init_def getOperatorByName_no_fault caught_def json_def)
  next
    case (Some err)
    then show ?thesis
      by (simp add: operator_def init_def getOperatorByName_def select_first_def rethrow_def
          caught_def json_def)
  qed
qed

lemma setInviteToken_placeholder:
  assumes "fst (setInviteToken e mail tok d) = Inr u"
  shows "length (filter (\<lambda>r. op_operator r = ''New Operator'')
                   (operators (snd (setInviteToken e mail tok d)))) =
         length (filter (\<lambda>r. op_operator r = ''New Operator'') (operators d)) + 1"
  using assms setInviteToken_atomic [where e = e and mail = mail and tok = tok and d = d]
  by (cases "setInviteToken e mail tok d") auto

text \<open>
  Claim C5, as the code has it. The tables carry no unique constraint on \<open>email\<close> or
  \<open>operator\<close>: \<open>updateOperator\<close> stores a display name and \<open>setInviteToken\<close> an e-mail
  whether or not a row has it already (when no statement fails for an outside reason, the
  id is in the range of the column and the next serial ids are unused). What the service
  layer does is read before it writes: \<open>invite\<close> answers \<open>success: false\<close> and writes
  nothing when an operator row has the e-mail, and \<open>operator\<close> and \<open>init\<close> answer
  \<open>success: false\<close> and write nothing when an operator row has the display name. Display
  names are not unique all the same: every \<open>setInviteToken\<close> that succeeds adds one more
  row with the placeholder \<open>New Operator\<close>, with no read before it.
\<close>

theorem uniqueness_checked_by_service_reads:
  "((\<exists>r \<in> set (operators d). op_email r = mail) \<longrightarrow>
      \<not> success (fst (invite e mail d)) \<and> snd (invite e mail d) = d) \<and>
   ((\<exists>r \<in> set (operators d). op_operator r = name) \<longrightarrow>
      \<not> success (fst (operator e name i d)) \<and> snd (operator e name i d) = d \<and>
      \<not> success (fst (init e tok pw name d)) \<and> snd (init e tok pw name d) = d) \<and>
   Unique c \<notin> set operators_constraints \<and>
   (fault e UpdateOperator = None \<and> int4 i \<longrightarrow>
      updateOperator e name i d =
        (Inr i, d\<lparr>operators := map (\<lambda>r. if op_id r = i then r\<lparr>op_operator := name\<rparr> else r)
                                   (operators d)\<rparr>)) \<and>
   (fault e InviteInsertOperator = None \<and> fault e InviteInsertToken = None \<and>
    fault e InviteCommit = None \<and>
    (\<forall>r \<in> set (operators d). op_id r \<noteq> operators_seq d + 1) \<and>
    (\<forall>r \<in> set (tokens d). tk_id r \<noteq> tokens_seq d + 1) \<longrightarrow>
      fst (setInviteToken e mail tok d) = Inr (True, ''Till next time.'') \<and>
      operators (snd (setInviteToken e mail tok d)) =
        operators d @ [\<lparr>op_id = operators_seq d + 1, op_email = mail, op_password = None,
                        op_operator = ''New Operator''\<rparr>]) \<and>
   (fst (setInviteToken e mail tok d) = Inr u \<longrightarrow>
      length (filter (\<lambda>r. op_operator r = ''New Operator'')
                (operators (snd (setInviteToken e mail tok d)))) =
      length (filter (\<lambda>r. op_operator r = ''New Operator'') (operators d)) + 1)"
  using invite_email_taken [of d mail e] operator_name_taken [of d name e i tok pw]
    setInviteToken_placeholder [of e mail tok d u]
  by (simp add: no_unique_constraint updateOperator_no_fault setInviteToken_no_fault)

theorem uniqueness_checked_by_service_reads_witness:
  "(\<exists>r \<in> set (operators db0). op_email r = ''genesis@apebase.app'') \<and>
   \<not> success (fst (invite (world 0 ''00'') ''genesis@apebase.app'' db0)) \<and>
   snd (invite (world 0 ''00'') ''genesis@apebase.app'' db0) = db0 \<and>
   (\<exists>r \<in> set (operators db_invited). op_operator r = ''Genesis'') \<and>
   \<not> success (fst (operator (world 0 ''00'') ''Genesis'' 1 db_invited)) \<and>
   snd (operator (world 0 ''00'') ''Genesis'' 1 db_invited) = db_invited \<and>
   \<not> success (fst (init (world 0 ''00'') ''5f2a9c'' ''Abcdef1!'' ''Genesis'' db_invited)) \<and>
   snd (init (world 0 ''00'') ''5f2a9c'' ''Abcdef1!'' ''Genesis'' db_invited) = db_invited \<and>
   int4 1 \<and>
   fst (updateOperator (world 0 ''00'') ''Genesis'' 1 db_invited) = Inr 1 \<and>
   fst (setInviteToken (world 0 ''00'') ''genesis@apebase.app'' ''5f2a9c'' db0) =
     Inr (True, ''Till next time.'') \<and>
   fst (setInviteToken (world 60000000 ''00'') ''bob@apebase.app'' ''c40d52'' db_invited) =
     Inr (True, ''Till next time.'') \<and>
   length (filter (\<lambda>r. op_operator r = ''New Operator'')
             (operators (snd (setInviteToken (world 60000000 ''00'') ''bob@apebase.app''
                                ''c40d52'' db_invited)))) = 2"
proof -
  note checked = uniqueness_checked_by_service_reads [where e = "world 0 ''00''"]
  have x: "\<exists>r \<in> set (operators db0). op_email r = ''genesis@apebase.app''"
    by (simp add: db0_def genesis_def)
  have y: "\<exists>r \<in> set (operators db_invited). op_operator r = ''Genesis''"
    by (simp add: db_invited_def genesis_def)
  have f: "fault (world t hex) q = None" for t hex q
    by (simp add: world_simps)
  have r: "int4 1"
    by (simp add: int4_def)
  have fresh: "\<forall>r \<in> set (operators db0). op_id r \<noteq> operators_seq db0 + 1"
    "\<forall>r \<in> set (tokens db0). tk_id r \<noteq> tokens_seq db0 + 1"
    "\<forall>r \<in> set (operators db_invited). op_id r \<noteq> operators_seq db_invited + 1"
    "\<forall>r \<in> set (tokens db_invited). tk_id r \<noteq> tokens_seq db_invited + 1"
    by (simp_all add: db0_def db_invited_def genesis_def ann_def)
  from checked [where mail = "''genesis@apebase.app''" and d = db0 and tok = "''5f2a9c''"] x f fresh
  have a: "\<not> success (fst (invite (world 0 ''00'') ''genesis@apebase.app'' db0))"
      "snd (invite (world 0 ''00'') ''genesis@apebase.app'' db0) = db0"
    and b: "fst (setInviteToken (world 0 ''00'') ''genesis@apebase.app'' ''5f2a9c'' db0) =
             Inr (True, ''Till next time.'')"
    by blast+
  from checked [where name = "''Genesis''" and d = db_invited and i = 1 and tok = "''5f2a9c''"
      and pw = "''Abcdef1!''"] y f r
  have c: "\<not> success (fst (operator (world 0 ''00'') ''Genesis'' 1 db_invited))"
      "snd (operator (world 0 ''00'') ''Genesis'' 1 db_invited) = db_invited"
      "\<not> success (fst (init (world 0 ''00'') ''5f2a9c'' ''Abcdef1!'' ''Genesis'' db_invited))"
      "snd (init (world 0 ''00'') ''5f2a9c'' ''Abcdef1!'' ''Genesis'' db_invited) = db_invited"
    and e: "fst (updateOperator (world 0 ''00'') ''Genesis'' 1 db_invited) = Inr 1"
    by simp_all
  note again = uniqueness_checked_by_service_reads
    [where e = "world 60000000 ''00''" and mail = "''bob@apebase.app''" and tok = "''c40d52''"
       and d = db_invited and u = "(True, ''Till next time.'')"]
  from again f fresh
  have g: "fst (setInviteToken (world 60000000 ''00'') ''bob@apebase.app'' ''c40d52'' db_invited) =
             Inr (True, ''Till next time.'')"
    by blast
  with again
  have "length (filter (\<lambda>r. op_operator r = ''New Operator'')
             (operators (snd (setInviteToken (world 60000000 ''00'') ''bob@apebase.app''
                                ''c40d52'' db_invited)))) =
        length (filter (\<lambda>r. op_operator r = ''New Operator'') (operators db_invited)) + 1"
    by blast
  then have h: "length (filter (\<lambda>r. op_operator r = ''New Operator'')
             (operators (snd (setInviteToken (world 60000000 ''00'') ''bob@apebase.app''
                                ''c40d52'' db_invited)))) = 2"
    by (simp add: db_invited_def genesis_def ann_def)
  from x y r a b c e g h show ?thesis
    by blast
qed

text \<open>
  The claim as it is stated fails: the storage layer takes a second operator row with the
  e-mail of the genesis operator, and takes the genesis operator's display name for the
  invited operator.
\<close>

theorem duplicate_writes_counterexample:
  "fst (setInviteToken (world 0 ''00'') ''genesis@apebase.app'' ''5f2a9c'' db0) =
     Inr (True, ''Till next time.'') \<and>
   map op_email (operators (snd (setInviteToken (world 0 ''00'') ''genesis@apebase.app'' ''5f2a9c'' db0))) =
     [''genesis@apebase.app'', ''genesis@apebase.app''] \<and>
   fst (updateOperator (world 0 ''00'') ''Genesis'' 1 db_invited) = Inr 1 \<and>
   map op_operator (operators (snd (updateOperator (world 0 ''00'') ''Genesis'' 1 db_invited))) =
     [''Genesis'', ''Genesis'']"
proof -
  have "setInviteToken (world 0 ''00'') ''genesis@apebase.app'' ''5f2a9c'' db0 =
     (Inr (True, ''Till next time.''),
      db0\<lparr>operators := operators db0 @
           [\<lparr>op_id = operators_seq db0 + 1, op_email = ''genesis@apebase.app'', op_password = None,
             op_operator = ''New Operator''\<rparr>],
        operators_seq := operators_seq db0 + 1,
        tokens := tokens db0 @
           [\<lparr>tk_id = tokens_seq db0 + 1, fk_operator = operators_seq db0 + 1, token = ''5f2a9c'',
             created_at = currentTime (world 0 ''00'')\<rparr>],
        tokens_seq := tokens_seq db0 + 1\<rparr>)"
    by (rule setInviteToken_no_fault) (simp_all add: world_simps db0_def genesis_def)
  moreover have "updateOperator (world 0 ''00'') ''Genesis'' 1 db_invited =
     (Inr 1, db_invited\<lparr>operators := map (\<lambda>r. if op_id r = 1 then r\<lparr>op_operator := ''Genesis''\<rparr> else r)
                                (operators db_invited)\<rparr>)"
    by (rule updateOperator_no_fault) (simp_all add: world_simps int4_def)
  ultimately show ?thesis
    by (simp add: db0_def db_invited_def genesis_def ann_def)
qed

section \<open>Tokens of one flow in the other flow\<close>

lemma find_append_None:
  "find P xs = None \<Longrightarrow> find P (xs @ ys) = find P ys"
  by (induction xs) (auto split: if_splits)

lemma filter_same_key:
  "distinct (map f xs) \<Longrightarrow> r \<in> set xs \<Longrightarrow> filter (\<lambda>x. f r = f x) xs = [r]"
proof (induction xs)
  case Nil
  then show ?case by simp
next
  case (Cons a xs)
  show ?case
  proof (cases "a = r")
    case True
    with Cons.prems(1) have "filter (\<lambda>x. f r = f x) xs = []"
      by (auto simp: filter_empty_conv image_iff)
    with True show ?thesis by simp
  next
    case False
    with Cons.prems have "r \<in> set xs" and "f r \<noteq> f a"
      by (auto simp: image_iff)
    with Cons show ?thesis by simp
  qed
qed

lemma join_append_token:
  "join_tokens_operators (d\<lparr>tokens := tokens d @ [t], tokens_seq := n\<rparr>) =
     join_tokens_operators d @
     map (\<lambda>r. (t, r)) (filter (\<lambda>r. fk_operator t = op_id r) (operators d))"
  by (simp add: join_tokens_operators_def)

lemma join_no_token:
  "\<forall>t \<in> set (tokens d). token t \<noteq> tok \<Longrightarrow>
   find (\<lambda>(t, r). token t = tok) (join_tokens_operators d) = None"
  by (auto simp: find_None_all join_tokens_operators_def)

lemma invite_token_redeemed:
  assumes inv: "setInviteToken e1 mail tok d = (Inr u, d1)"
    and fresh: "\<forall>t \<in> set (tokens d). token t \<noteq> tok"
    and pw: "validatePassword pw"
    and young: "now e2 - currentTime e1 < one_hour"
    and flt: "fault e2 GetResetTokenRecord = None" "fault e2 PasswordUpdate = None"
      "fault e2 PasswordDelete = None" "fault e2 PasswordCommit = None"
  shows "\<exists>d2. password e2 tok pw d1 = (json 200 True ''Password updated successfully'', d2) \<and>
           \<lparr>op_id = operators_seq d + 1, op_email = mail,
             op_password = Some (bcrypt_hash e2 pw), op_operator = ''New Operator''\<rparr>
             \<in> set (operators d2) \<and>
           (\<forall>t \<in> set (tokens d2). token t \<noteq> tok)"
proof -
  let ?t = "\<lparr>tk_id = tokens_seq d + 1, fk_operator = operators_seq d + 1, token = tok,
             created_at = currentTime e1\<rparr>"
  let ?o = "\<lparr>op_id = operators_seq d + 1, op_email = mail, op_password = None,
             op_operator = ''New Operator''\<rparr>"
  from setInviteToken_atomic [where e = e1 and mail = mail and tok = tok and d = d] inv
  have ops: "operators d1 = operators d @ [?o]" and tks: "tokens d1 = tokens d @ [?t]"
    by simp_all
  from fresh have "find (\<lambda>r. token r = tok \<and> created_at r > now e2 - one_hour) (tokens d) = None"
    by (simp add: find_None_all)
  with young have found:
    "find (\<lambda>r. token r = tok \<and> created_at r > now e2 - one_hour) (tokens d1) = Some ?t"
    by (simp add: tks find_append_None)
  from password_fresh [OF pw flt found] ops tks fresh show ?thesis
    by auto
qed

lemma reset_token_welcomed:
  assumes res: "setResetToken e1 (op_id r) tok d = (Inr (), d1)"
    and mem: "r \<in> set (operators d)"
    and key: "distinct (map op_id (operators d))"
    and fresh: "\<forall>t \<in> set (tokens d). token t \<noteq> tok"
    and flt: "fault e2 GetOperatorByToken = None"
  shows "welcome_handler e2 tok d1 = (json 200 True (op_email r), d1)"
proof -
  let ?t = "\<lparr>tk_id = tokens_seq d + 1, fk_operator = op_id r, token = tok,
             created_at = currentTime e1\<rparr>"
  from res have d1: "d1 = d\<lparr>tokens := tokens d @ [?t], tokens_seq := tokens_seq d + 1\<rparr>"
    by (auto simp: setResetToken_def split: sum.splits if_splits prod.splits
        dest!: insert_token_Inr)
  from key mem have "filter (\<lambda>x. op_id r = op_id x) (operators d) = [r]"
    by (rule filter_same_key)
  with join_no_token [OF fresh]
  have "find (\<lambda>(t, r). token t = tok) (join_tokens_operators d1) = Some (?t, r)"
    by (simp add: d1 join_append_token find_append_None)
  with flt show ?thesis
    by (simp add: welcome_handler_def getOperatorByToken_def select_first_def rethrow_def)
qed

text \<open>
  Claim C10. A token row has no kind, and the lookups do not ask for one. A token that
  \<open>setInviteToken\<close> created less than an hour ago is accepted by the operation
  \<open>password\<close>: it answers with the success, the invited operator, who had no password,
  has the hash of the submitted one, and no row with the token is left. A token that
  \<open>setResetToken\<close> created is accepted by the welcome lookup, at any age, and the answer
  carries the e-mail of the operator. The token value is fresh in both cases, as a random
  value of 160 bits is.
\<close>

theorem tokens_redeemable_across_flows:
  "(setInviteToken e1 mail tok d = (Inr u, d1) \<and>
    (\<forall>t \<in> set (tokens d). token t \<noteq> tok) \<and>
    validatePassword pw \<and> now e2 - currentTime e1 < one_hour \<and>
    fault e2 GetResetTokenRecord = None \<and> fault e2 PasswordUpdate = None \<and>
    fault e2 PasswordDelete = None \<and> fault e2 PasswordCommit = None \<longrightarrow>
      (\<exists>d2. password e2 tok pw d1 = (json 200 True ''Password updated successfully'', d2) \<and>
            \<lparr>op_id = operators_seq d + 1, op_email = mail,
              op_password = Some (bcrypt_hash e2 pw), op_operator = ''New Operator''\<rparr>
              \<in> set (operators d2) \<and>
            (\<forall>t \<in> set (tokens d2). token t \<noteq> tok))) \<and>
   (setResetToken e1 (op_id r) tok d = (Inr (), d1) \<and>
    r \<in> set (operators d) \<and> distinct (map op_id (operators d)) \<and>
    (\<forall>t \<in> set (tokens d). token t \<noteq> tok) \<and>
    fault e2 GetOperatorByToken = None \<longrightarrow>
      welcome_handler e2 tok d1 = (json 200 True (op_email r), d1))"
  using invite_token_redeemed [of e1 mail tok d u d1 pw e2]
    reset_token_welcomed [of e1 r tok d d1 e2]
  by blast

theorem tokens_redeemable_across_flows_witness:
  "setInviteToken (world 0 ''5f2a9c'') ''ann@apebase.app'' ''5f2a9c'' db0 =
     (Inr (True, ''Till next time.''), db_invited) \<and>
   validatePassword ''Abcdef1!'' \<and>
   now (world 1800000000 ''00'') - currentTime (world 0 ''5f2a9c'') < one_hour \<and>
   (\<exists>d2. password (world 1800000000 ''00'') ''5f2a9c'' ''Abcdef1!'' db_invited =
            (json 200 True ''Password updated successfully'', d2) \<and>
          ann\<lparr>op_password := Some ''$2b$10$Abcdef1!''\<rparr> \<in> set (operators d2) \<and>
          tokens d2 = []) \<and>
   setResetToken (world 0 ''77e0b1'') (op_id genesis) ''77e0b1'' db0 = (Inr (), db_reset) \<and>
   genesis \<in> set (operators db0) \<and> distinct (map op_id (operators db0)) \<and>
   welcome_handler (world 86400000000 ''00'') ''77e0b1'' db_reset =
     (json 200 True ''genesis@apebase.app'', db_reset)"
proof -
  have i: "setInviteToken (world 0 ''5f2a9c'') ''ann@apebase.app'' ''5f2a9c'' db0 =
     (Inr (True, ''Till next time.''), db_invited)"
    by (simp add: setInviteToken_no_fault world_simps db0_def db_invited_def genesis_def ann_def)
  have v: "validatePassword ''Abcdef1!''"
    by (simp add: validatePassword_rules password_rules_Abcdef1)
  have y: "now (world 1800000000 ''00'') - currentTime (world 0 ''5f2a9c'') < one_hour"
    by (simp add: world_simps one_hour_def)
  have f: "fault (world t hex) q = None" for t hex q
    by (simp add: world_simps)
  have fresh: "\<forall>t \<in> set (tokens db0). token t \<noteq> tok" for tok
    by (simp add: db0_def)
  have s: "setResetToken (world 0 ''77e0b1'') (op_id genesis) ''77e0b1'' db0 = (Inr (), db_reset)"
    by (simp add: setResetToken_no_fault world_simps db0_def db_reset_def genesis_def)
  have m: "genesis \<in> set (operators db0)" and k: "distinct (map op_id (operators db0))"
    by (simp_all add: db0_def)
  note across = tokens_redeemable_across_flows [where d = db0]
  from across [where ?e1.0 = "world 0 ''5f2a9c''" and mail = "''ann@apebase.app''"
      and tok = "''5f2a9c''" and u = "(True, ''Till next time.'')" and ?d1.0 = db_invited
      and pw = "''Abcdef1!''" and ?e2.0 = "world 1800000000 ''00''"] i v y f fresh
  obtain d2 where p: "password (world 1800000000 ''00'') ''5f2a9c'' ''Abcdef1!'' db_invited =
            (json 200 True ''Password updated successfully'', d2)"
    and o: "\<lparr>op_id = operators_seq db0 + 1, op_email = ''ann@apebase.app'',
              op_password = Some (bcrypt_hash (world 1800000000 ''00'') ''Abcdef1!''),
              op_operator = ''New Operator''\<rparr> \<in> set (operators d2)"
    and n: "\<forall>t \<in> set (tokens d2). token t \<noteq> ''5f2a9c''"
    by blast
  from o have o': "ann\<lparr>op_password := Some ''$2b$10$Abcdef1!''\<rparr> \<in> set (operators d2)"
    by (simp add: ann_def db0_def world_simps)
  have "find (\<lambda>r. token r = ''5f2a9c'' \<and> created_at r > now (world 1800000000 ''00'') - one_hour)
          (tokens db_invited) = Some \<lparr>tk_id = 1, fk_operator = 1, token = ''5f2a9c'', created_at = 0\<rparr>"
    by (simp add: db_invited_def world_simps one_hour_def)
  from password_fresh [OF v f f f f this] p have "tokens d2 = []"
    by (auto simp: db_invited_def)
  with p o' have a: "\<exists>d2. password (world 1800000000 ''00'') ''5f2a9c'' ''Abcdef1!'' db_invited =
            (json 200 True ''Password updated successfully'', d2) \<and>
          ann\<lparr>op_password := Some ''$2b$10$Abcdef1!''\<rparr> \<in> set (operators d2) \<and>
          tokens d2 = []"
    by blast
  from across [where ?e1.0 = "world 0 ''77e0b1''" and r = genesis and tok = "''77e0b1''"
      and ?d1.0 = db_reset and ?e2.0 = "world 86400000000 ''00''"] s m k f fresh
  have b: "welcome_handler (world 86400000000 ''00'') ''77e0b1'' db_reset =
     (json 200 True (op_email genesis), db_reset)"
    by blast
  from i v y a s m k b show ?thesis
    by (simp add: genesis_def)
qed

end
